theory Spec2Isabelle
  imports
    Main
    "HOL-Library.Char_ord"
    "HOL-Library.List_Lexorder"
    "HOL-Library.Multiset"
    "HOL-Library.Option_ord"
    "HOL-Library.Product_Lexorder"
begin

section \<open>Study hall management: the fee ledger of server.js\<close>

text \<open>
  The program is an Express server over an SQLite database with two tables, \<open>students\<close>
  and \<open>study_halls\<close>. Every route handler runs one or two SQL statements. The embedding
  keeps the tables as lists of rows (in rowid order) and turns each handler into a function
  from the request and the database to a result and the new database. An HTTP error
  response is a value of type \<open>error\<close>.

  Conventions of the embedding:
  \<^item> INTEGER columns are \<open>int\<close>. SQLite integers are 64-bit and JavaScript numbers are
    doubles; amounts are taken to stay inside the range where both are exact.
  \<^item> TEXT columns are \<open>string\<close>; a nullable column is an \<open>option\<close>, with \<open>None\<close> for NULL.
    Texts are ordered bytewise, as SQLite's BINARY collation orders them.
  \<^item> The server clock enters as a parameter: \<open>new Date().toISOString().split('T')[0]\<close> is a
    calendar date.
\<close>

subsection \<open>Calendar dates written by the server clock\<close>

text \<open>
  A date is (year, month, day). The server writes it as the zero-padded text
  \<open>YYYY-MM-DD\<close>, and SQLite compares such texts bytewise; for the years 0 to 9999 that
  is the lexicographic order of the triples (\<open>iso_date_less_iff\<close> below).
\<close>

type_synonym date = "int \<times> int \<times> int"

definition leap_year :: "int \<Rightarrow> bool" where
  "leap_year y \<longleftrightarrow> y mod 4 = 0 \<and> (y mod 100 \<noteq> 0 \<or> y mod 400 = 0)"

definition days_in_month :: "int \<Rightarrow> int \<Rightarrow> int" where
  "days_in_month y m =
     (if m = 2 then (if leap_year y then 29 else 28)
      else if m = 4 \<or> m = 6 \<or> m = 9 \<or> m = 11 then 30
      else 31)"

definition valid_date :: "date \<Rightarrow> bool" where
  "valid_date dt =
     (case dt of (y, m, d) \<Rightarrow>
        1 \<le> y \<and> y \<le> 9999 \<and> 1 \<le> m \<and> m \<le> 12 \<and> 1 \<le> d \<and> d \<le> days_in_month y m)"

text \<open>
  SQLite's \<open>date(X, 'N month')\<close>: the month number is moved by N and carried into the
  year; the result is then renormalised through the Julian day number, so that a day past
  the end of the new month runs over into the following month (2024-03-31 minus one month
  is 2024-02-31, that is 2024-03-02). A year after 9999 or before -4713 gives NULL.
\<close>

definition sqlite_date_month :: "int \<Rightarrow> date \<Rightarrow> date option" where
  "sqlite_date_month n dt =
     (case dt of (y, m, d) \<Rightarrow>
        let M = m + n;
            x = (if M > 0 then (M - 1) div 12 else - ((12 - M) div 12));
            Y = y + x;
            M' = M - x * 12;
            r = (if d > days_in_month Y M'
                 then (if M' = 12 then (Y + 1, 1, d - days_in_month Y M')
                       else (Y, M' + 1, d - days_in_month Y M'))
                 else (Y, M', d))
        in if fst r < - 4713 \<or> fst r > 9999 then None else Some r)"

text \<open>The text of a date, as \<open>toISOString\<close> and SQLite's \<open>date\<close> print it.\<close>

definition digit :: "int \<Rightarrow> char" where
  "digit n = ''0123456789'' ! nat (n mod 10)"

definition pad2 :: "int \<Rightarrow> string" where
  "pad2 n = [digit (n div 10), digit n]"

definition pad4 :: "int \<Rightarrow> string" where
  "pad4 n = [digit (n div 1000), digit (n div 100), digit (n div 10), digit n]"

definition iso_date :: "date \<Rightarrow> string" where
  "iso_date dt =
     (case dt of (y, m, d) \<Rightarrow>
        (if y < 0 then ''-'' @ pad4 (- y) else pad4 y) @ ''-'' @ pad2 m @ ''-'' @ pad2 d)"

text \<open>The dates whose text has the fixed width of ten characters.\<close>

definition iso_range :: "date \<Rightarrow> bool" where
  "iso_range dt =
     (case dt of (y, m, d) \<Rightarrow>
        0 \<le> y \<and> y \<le> 9999 \<and> 0 \<le> m \<and> m \<le> 99 \<and> 0 \<le> d \<and> d \<le> 99)"

subsection \<open>The tables\<close>

text \<open>
  The columns of \<open>students\<close> and \<open>study_halls\<close>, without \<open>created_at\<close>.
  \<open>last_fee_calculated_date\<close> is written by the accrual statement only, always with the
  server's current date, so the column holds the text of a calendar date or NULL; the
  record keeps the date itself. \<open>join_date\<close> and \<open>left_date\<close> hold the caller's text,
  taken not to be the text of a number (the column type DATE would store that as a number).
\<close>

record student =
  student_id :: nat
  name :: string
  cabin :: string
  hall :: string
  phone :: string
  fee_paid :: int
  fee_due :: int
  status :: string
  join_date :: "string option"
  left_date :: "string option"
  monthly_fee :: int
  last_fee_calculated_date :: "date option"

record study_hall =
  hall_id :: nat
  hall_name :: string
  capacity :: int
  location :: string
  description :: string

text \<open>
  The database: both tables, and for each the largest rowid ever used (the
  \<open>sqlite_sequence\<close> entry of an AUTOINCREMENT key).
\<close>

record db =
  students :: "student list"
  study_halls :: "study_hall list"
  student_seq :: nat
  hall_seq :: nat

datatype error = HttpError nat string

subsection \<open>POST /api/fees/calculate-monthly\<close>

text \<open>
  The WHERE clause of the UPDATE. The stored stamp and \<open>date(?, '-1 month')\<close> are
  compared as texts. A comparison with NULL is not true, so a NULL
  \<open>date(?, '-1 month')\<close> selects nothing.
\<close>

definition accrual_selects :: "date \<Rightarrow> student \<Rightarrow> bool" where
  "accrual_selects currentDate s \<longleftrightarrow>
     left_date s = None \<and> monthly_fee s > 0 \<and>
     (case last_fee_calculated_date s of
        None \<Rightarrow> True
      | Some l \<Rightarrow>
          (case sqlite_date_month (- 1) currentDate of
             None \<Rightarrow> False
           | Some b \<Rightarrow> iso_date l < iso_date b))"

text \<open>The SET clause; every right-hand side reads the row as it was before the UPDATE.\<close>

definition accrual_set :: "date \<Rightarrow> student \<Rightarrow> student" where
  "accrual_set currentDate s =
     s\<lparr>fee_due := fee_due s + monthly_fee s,
       last_fee_calculated_date := Some currentDate,
       status := (if monthly_fee s > 0 \<and> fee_due s + monthly_fee s > 0
                  then ''Pending'' else status s)\<rparr>"

text \<open>The handler answers with \<open>this.changes\<close>, the number of rows the UPDATE matched.\<close>

definition runMonthlyAccrual :: "date \<Rightarrow> db \<Rightarrow> db \<times> nat" where
  "runMonthlyAccrual currentDate d =
     (d\<lparr>students :=
          map (\<lambda>s. if accrual_selects currentDate s then accrual_set currentDate s else s)
            (students d)\<rparr>,
      length (filter (accrual_selects currentDate) (students d)))"

subsection \<open>Request bodies\<close>

text \<open>
  A field of a JSON or form body that the handler passes to \<open>parseInt\<close>: absent, null, a
  boolean, an integer or a text. The fields the handler tests with \<open>!x\<close> or \<open>x || y\<close> and
  stores as text are a text or absent (\<open>None\<close>); the empty text is falsy.
\<close>

datatype jsval = Undefined | Null | Bool bool | Num int | Str string

definition truthy :: "string option \<Rightarrow> bool" where
  "truthy t \<longleftrightarrow> t \<noteq> None \<and> t \<noteq> Some []"

definition text_of :: "string option \<Rightarrow> string" where
  "text_of t = (case t of None \<Rightarrow> [] | Some x \<Rightarrow> x)"

text \<open>
  ECMAScript's \<open>parseInt\<close> with no radix argument: skip white space, read a sign, read
  \<open>0x\<close> as the hexadecimal prefix, then take the longest run of digits; no digit gives
  NaN (\<open>None\<close>). The texts \<open>undefined\<close>, \<open>null\<close>, \<open>true\<close> and \<open>false\<close> start with no digit.
  White space is the ASCII part of the language's list.
\<close>

definition str_white_space :: "char \<Rightarrow> bool" where
  "str_white_space c \<longleftrightarrow>
     c \<in> set [CHR '' '', CHR 0x09, CHR 0x0A, CHR 0x0B, CHR 0x0C, CHR 0x0D]"

definition digit_value :: "char \<Rightarrow> nat option" where
  "digit_value c =
     (let k = (of_char c :: nat) in
        if 48 \<le> k \<and> k \<le> 57 then Some (k - 48)
        else if 97 \<le> k \<and> k \<le> 122 then Some (k - 87)
        else if 65 \<le> k \<and> k \<le> 90 then Some (k - 55)
        else None)"

definition radix_digit :: "nat \<Rightarrow> char \<Rightarrow> bool" where
  "radix_digit R c = (case digit_value c of None \<Rightarrow> False | Some v \<Rightarrow> v < R)"

definition digits_value :: "nat \<Rightarrow> string \<Rightarrow> nat" where
  "digits_value R Z =
     foldl (\<lambda>a c. case digit_value c of None \<Rightarrow> a | Some v \<Rightarrow> a * R + v) 0 Z"

definition parseInt_string :: "string \<Rightarrow> int option" where
  "parseInt_string inputString =
     (let S = dropWhile str_white_space inputString;
          neg = (S \<noteq> [] \<and> hd S = CHR ''-'');
          S1 = (if S \<noteq> [] \<and> (hd S = CHR ''+'' \<or> hd S = CHR ''-'') then tl S else S);
          hex = (2 \<le> length S1 \<and> hd S1 = CHR ''0'' \<and>
                 (S1 ! 1 = CHR ''x'' \<or> S1 ! 1 = CHR ''X''));
          R = (if hex then 16 else 10);
          S2 = (if hex then drop 2 S1 else S1);
          Z = takeWhile (radix_digit R) S2
      in if Z = [] then None
         else Some ((if neg then - 1 else 1) * int (digits_value R Z)))"

definition parseInt :: "jsval \<Rightarrow> int option" where
  "parseInt v =
     (case v of
        Undefined \<Rightarrow> None
      | Null \<Rightarrow> None
      | Bool b \<Rightarrow> None
      | Num n \<Rightarrow> Some n
      | Str s \<Rightarrow> parseInt_string s)"

text \<open>\<open>parseInt(x) || 0\<close>: NaN and 0 are falsy.\<close>

definition or0 :: "int option \<Rightarrow> int" where
  "or0 p = (case p of None \<Rightarrow> 0 | Some n \<Rightarrow> n)"

record student_body =
  req_name :: "string option"
  req_cabin :: "string option"
  req_hall :: "string option"
  req_phone :: "string option"
  feePaid :: jsval
  feeDue :: jsval
  monthlyFee :: jsval
  joinDate :: "string option"
  leftDate :: "string option"

subsection \<open>POST /api/students, PUT /api/students/:id, DELETE /api/students/:id\<close>

text \<open>
  An AUTOINCREMENT key is one more than the largest rowid the table ever held. The
  handler answers with \<open>this.lastID\<close>.
\<close>

definition next_rowid :: "nat \<Rightarrow> nat list \<Rightarrow> nat" where
  "next_rowid seq ids = Suc (fold max ids seq)"

definition createStudent :: "date \<Rightarrow> student_body \<Rightarrow> db \<Rightarrow> error + (nat \<times> db)" where
  "createStudent today body d =
     (if \<not> truthy (req_name body) then Inl (HttpError 400 ''Student name is required'')
      else if \<not> truthy (req_cabin body) then Inl (HttpError 400 ''Cabin number is required'')
      else if \<not> truthy (req_hall body) then Inl (HttpError 400 ''Study hall is required'')
      else if \<not> truthy (req_phone body) then Inl (HttpError 400 ''Phone number is required'')
      else
        let lastID = next_rowid (student_seq d) (map student_id (students d));
            row = \<lparr>student_id = lastID,
                   name = text_of (req_name body),
                   cabin = text_of (req_cabin body),
                   hall = text_of (req_hall body),
                   phone = text_of (req_phone body),
                   fee_paid = or0 (parseInt (feePaid body)),
                   fee_due = or0 (parseInt (feeDue body)),
                   status = (if parseInt (feeDue body) = Some 0 then ''Paid'' else ''Pending''),
                   join_date = (if truthy (joinDate body) then joinDate body
                                else Some (iso_date today)),
                   left_date = None,
                   monthly_fee = or0 (parseInt (monthlyFee body)),
                   last_fee_calculated_date = None\<rparr>
        in Inr (lastID, d\<lparr>students := students d @ [row], student_seq := lastID\<rparr>))"

definition update_set :: "student_body \<Rightarrow> student \<Rightarrow> student" where
  "update_set body s =
     s\<lparr>name := text_of (req_name body),
       cabin := text_of (req_cabin body),
       hall := text_of (req_hall body),
       phone := text_of (req_phone body),
       fee_paid := or0 (parseInt (feePaid body)),
       fee_due := or0 (parseInt (feeDue body)),
       status := (if parseInt (feeDue body) = Some 0 then ''Paid'' else ''Pending''),
       monthly_fee := or0 (parseInt (monthlyFee body)),
       join_date := joinDate body,
       left_date := (if truthy (leftDate body) then leftDate body else None)\<rparr>"

definition updateStudent :: "nat \<Rightarrow> student_body \<Rightarrow> db \<Rightarrow> error + db" where
  "updateStudent id' body d =
     (if \<not> truthy (req_name body) \<or> \<not> truthy (req_cabin body) \<or> \<not> truthy (req_hall body) \<or>
         \<not> truthy (req_phone body) \<or> feePaid body = Undefined \<or> feeDue body = Undefined
      then Inl (HttpError 400 ''All fields are required'')
      else if filter (\<lambda>s. student_id s = id') (students d) = []
      then Inl (HttpError 404 ''Student not found'')
      else Inr (d\<lparr>students :=
                   map (\<lambda>s. if student_id s = id' then update_set body s else s)
                     (students d)\<rparr>))"

definition deleteStudent :: "nat \<Rightarrow> db \<Rightarrow> error + db" where
  "deleteStudent id' d =
     (if filter (\<lambda>s. student_id s = id') (students d) = []
      then Inl (HttpError 404 ''Student not found'')
      else Inr (d\<lparr>students := filter (\<lambda>s. student_id s \<noteq> id') (students d)\<rparr>))"

subsection \<open>PUT /api/students/:id/leave and /reactivate\<close>

text \<open>\<open>leaveDate = left_date || today\<close>, then one UPDATE of the column \<open>left_date\<close>.\<close>

definition markLeft :: "date \<Rightarrow> nat \<Rightarrow> string option \<Rightarrow> db \<Rightarrow> error + db" where
  "markLeft today id' left_date_body d =
     (let leaveDate = (if truthy left_date_body then text_of left_date_body
                       else iso_date today)
      in if filter (\<lambda>s. student_id s = id') (students d) = []
         then Inl (HttpError 404 ''Student not found'')
         else Inr (d\<lparr>students :=
                      map (\<lambda>s. if student_id s = id' then s\<lparr>left_date := Some leaveDate\<rparr> else s)
                        (students d)\<rparr>))"

definition reactivate :: "nat \<Rightarrow> db \<Rightarrow> error + db" where
  "reactivate id' d =
     (if filter (\<lambda>s. student_id s = id') (students d) = []
      then Inl (HttpError 404 ''Student not found'')
      else Inr (d\<lparr>students :=
                   map (\<lambda>s. if student_id s = id' then s\<lparr>left_date := None\<rparr> else s)
                     (students d)\<rparr>))"

subsection \<open>DELETE /api/study-halls/:id\<close>

text \<open>
  The count query compares \<open>hall\<close> with a scalar subquery; when no hall has the id the
  subquery is NULL, the comparison is not true for any row, and the count is 0.
\<close>

definition hall_name_of_id :: "nat \<Rightarrow> db \<Rightarrow> string option" where
  "hall_name_of_id id' d =
     (case filter (\<lambda>h. hall_id h = id') (study_halls d) of
        [] \<Rightarrow> None
      | h # hs \<Rightarrow> Some (hall_name h))"

definition students_in_hall_count :: "nat \<Rightarrow> db \<Rightarrow> nat" where
  "students_in_hall_count id' d =
     (case hall_name_of_id id' d of
        None \<Rightarrow> 0
      | Some n \<Rightarrow> length (filter (\<lambda>s. hall s = n) (students d)))"

definition deleteStudyHall :: "nat \<Rightarrow> db \<Rightarrow> error + db" where
  "deleteStudyHall id' d =
     (if students_in_hall_count id' d > 0
      then Inl (HttpError 400 ''Cannot delete study hall with students assigned to it'')
      else if filter (\<lambda>h. hall_id h = id') (study_halls d) = []
      then Inl (HttpError 404 ''Study hall not found'')
      else Inr (d\<lparr>study_halls := filter (\<lambda>h. hall_id h \<noteq> id') (study_halls d)\<rparr>))"

subsection \<open>GET /api/upcoming-fees\<close>

text \<open>
  The column \<open>next_fee_date\<close> of the SELECT: a text or NULL. ORDER BY puts NULL first and
  orders texts bytewise.
\<close>

definition next_fee_date :: "student \<Rightarrow> string option" where
  "next_fee_date s =
     (case last_fee_calculated_date s of
        None \<Rightarrow> join_date s
      | Some l \<Rightarrow> map_option iso_date (sqlite_date_month 1 l))"

definition getUpcomingFees :: "db \<Rightarrow> (student \<times> string option) list" where
  "getUpcomingFees d =
     sort_key snd
       (map (\<lambda>s. (s, next_fee_date s))
          (filter (\<lambda>s. left_date s = None \<and> monthly_fee s > 0) (students d)))"

subsection \<open>GET /api/dashboard\<close>

record dashboard =
  totalStudents :: nat
  totalHalls :: nat
  activeStudents :: nat
  leftStudents :: nat
  monthlyFeeTotal :: int
  totalFees :: int
  pendingFees :: int
  totalFeeAmount :: int
  studentsWithPendingFees :: nat

definition getDashboardSummary :: "db \<Rightarrow> dashboard" where
  "getDashboardSummary d =
     \<lparr>totalStudents = length (students d),
      totalHalls = length (study_halls d),
      activeStudents =
        length (filter (\<lambda>s. left_date s = None \<or> left_date s = Some []) (students d)),
      leftStudents =
        length (filter (\<lambda>s. left_date s \<noteq> None \<and> left_date s \<noteq> Some []) (students d)),
      monthlyFeeTotal =
        sum_list (map monthly_fee
          (filter (\<lambda>s. left_date s = None \<or> left_date s = Some []) (students d))),
      totalFees = sum_list (map fee_paid (students d)),
      pendingFees = sum_list (map fee_due (students d)),
      totalFeeAmount = sum_list (map (\<lambda>s. fee_paid s + fee_due s) (students d)),
      studentsWithPendingFees = length (filter (\<lambda>s. fee_due s > 0) (students d))\<rparr>"

subsection \<open>GET /api/reports/fee-collection\<close>

text \<open>
  The column \<open>collectionRate\<close> is the integer 0 or a REAL with one decimal; it is kept as
  a whole number of tenths. \<open>ROUND(a * 100.0 / b, 1)\<close> is the tenth nearest to the
  quotient, which is taken exactly: the amounts are taken to be small enough that the
  double-precision quotient lies on the same side of every half tenth as the exact one.
  Where the exact quotient is a half tenth itself, the side SQLite's rounding of the
  double takes is not fixed here: \<open>away a b\<close> says whether it is the one away from zero.
\<close>

definition sql_round_rate :: "(int \<Rightarrow> int \<Rightarrow> bool) \<Rightarrow> int \<Rightarrow> int \<Rightarrow> int" where
  "sql_round_rate away a b =
     (let n = 2000 * \<bar>a\<bar> + \<bar>b\<bar>;
          m = 2 * \<bar>b\<bar>
      in sgn a * sgn b * (if n mod m = 0 \<and> \<not> away a b then n div m - 1 else n div m))"

text \<open>The text JavaScript gives a number with at most one decimal, here in tenths.\<close>

fun show_nat :: "nat \<Rightarrow> string" where
  "show_nat n = (if n < 10 then [digit (int n)] else show_nat (n div 10) @ [digit (int n)])"

definition number_to_string :: "int \<Rightarrow> string" where
  "number_to_string t =
     (if t < 0 then ''-'' else []) @ show_nat (nat (\<bar>t\<bar> div 10)) @
     (if \<bar>t\<bar> mod 10 = 0 then [] else ''.'' @ [digit \<bar>t\<bar>])"

record report_row =
  rep_hall :: string
  rep_totalStudents :: nat
  feesCollected :: int
  feesPending :: int
  rep_totalFeeAmount :: int
  collectionRate :: string

text \<open>One group of the LEFT JOIN: a hall with the students whose \<open>hall\<close> is its name.\<close>

definition report_group ::
  "(int \<Rightarrow> int \<Rightarrow> bool) \<Rightarrow> db \<Rightarrow> study_hall \<Rightarrow> report_row" where
  "report_group away d sh =
     (let ss = filter (\<lambda>s. hall_name sh = hall s) (students d);
          collected = sum_list (map fee_paid ss);
          total = sum_list (map (\<lambda>s. fee_paid s + fee_due s) ss);
          rate = (if length ss = 0 \<or> total = 0 then 0
                  else sql_round_rate away collected total)
      in \<lparr>rep_hall = hall_name sh,
          rep_totalStudents = length ss,
          feesCollected = collected,
          feesPending = sum_list (map fee_due ss),
          rep_totalFeeAmount = total,
          collectionRate = (if rate = 0 then ''0%'' else number_to_string rate @ ''%'')\<rparr>)"

definition getFeeCollectionReport ::
  "(int \<Rightarrow> int \<Rightarrow> bool) \<Rightarrow> db \<Rightarrow> report_row list" where
  "getFeeCollectionReport away d =
     map (report_group away d) (sort_key hall_name (study_halls d))"

subsection \<open>Example rows\<close>

text \<open>
  Student A is the example of the accrual cycle: monthly fee 500, nothing due, joined on
  2024-01-01, no accrual yet. Student B has paid 1000, owes nothing and left on
  2024-01-20. Student E joined on 2024-03-10. Student G has the empty text as
  \<open>left_date\<close>. The bodies are requests to POST /api/students.
\<close>

definition student_A :: student where
  "student_A =
     \<lparr>student_id = 1, name = ''A'', cabin = ''C1'', hall = ''Hall A'', phone = ''100'',
      fee_paid = 0, fee_due = 0, status = ''Paid'', join_date = Some ''2024-01-01'',
      left_date = None, monthly_fee = 500, last_fee_calculated_date = None\<rparr>"

definition student_B :: student where
  "student_B =
     \<lparr>student_id = 2, name = ''B'', cabin = ''C2'', hall = ''Hall B'', phone = ''200'',
      fee_paid = 1000, fee_due = 0, status = ''Paid'', join_date = Some ''2023-11-05'',
      left_date = Some ''2024-01-20'', monthly_fee = 400, last_fee_calculated_date = None\<rparr>"

definition hall_A :: study_hall where
  "hall_A =
     \<lparr>hall_id = 1, hall_name = ''Hall A'', capacity = 20, location = ''North'',
      description = []\<rparr>"

definition hall_B :: study_hall where
  "hall_B =
     \<lparr>hall_id = 2, hall_name = ''Hall B'', capacity = 10, location = ''South'',
      description = []\<rparr>"

definition example_db :: db where
  "example_db =
     \<lparr>students = [student_A, student_B], study_halls = [hall_B, hall_A],
      student_seq = 2, hall_seq = 2\<rparr>"

definition empty_db :: db where
  "empty_db = \<lparr>students = [], study_halls = [], student_seq = 0, hall_seq = 0\<rparr>"

definition body_C :: student_body where
  "body_C =
     \<lparr>req_name = Some ''C'', req_cabin = Some ''C3'', req_hall = Some ''Hall A'',
      req_phone = Some ''300'', feePaid = Num 0, feeDue = Num (- 500), monthlyFee = Num 500,
      joinDate = Some ''2024-01-01'', leftDate = None\<rparr>"

definition student_C :: student where
  "student_C =
     \<lparr>student_id = 1, name = ''C'', cabin = ''C3'', hall = ''Hall A'', phone = ''300'',
      fee_paid = 0, fee_due = - 500, status = ''Pending'', join_date = Some ''2024-01-01'',
      left_date = None, monthly_fee = 500, last_fee_calculated_date = None\<rparr>"

definition body_D :: student_body where
  "body_D =
     \<lparr>req_name = Some ''D'', req_cabin = Some ''C4'', req_hall = Some ''Hall A'',
      req_phone = Some ''400'', feePaid = Undefined, feeDue = Undefined,
      monthlyFee = Undefined, joinDate = None, leftDate = None\<rparr>"

definition student_D :: student where
  "student_D =
     \<lparr>student_id = 1, name = ''D'', cabin = ''C4'', hall = ''Hall A'', phone = ''400'',
      fee_paid = 0, fee_due = 0, status = ''Pending'', join_date = Some ''2024-01-01'',
      left_date = None, monthly_fee = 0, last_fee_calculated_date = None\<rparr>"

definition body_B :: student_body where
  "body_B =
     \<lparr>req_name = Some ''B'', req_cabin = Some ''C2'', req_hall = Some ''Hall B'',
      req_phone = Some ''200'', feePaid = Num 1000, feeDue = Str ''0'', monthlyFee = Num 400,
      joinDate = Some ''2023-11-05'', leftDate = Some ''2024-01-20''\<rparr>"

definition student_E :: student where
  "student_E =
     \<lparr>student_id = 3, name = ''E'', cabin = ''C5'', hall = ''Hall A'', phone = ''500'',
      fee_paid = 0, fee_due = 300, status = ''Pending'', join_date = Some ''2024-03-10'',
      left_date = None, monthly_fee = 300, last_fee_calculated_date = None\<rparr>"

definition student_F :: student where
  "student_F =
     \<lparr>student_id = 5, name = ''F'', cabin = ''C6'', hall = ''Hall B'', phone = ''600'',
      fee_paid = 1000, fee_due = 2000, status = ''Pending'', join_date = Some ''2024-01-15'',
      left_date = None, monthly_fee = 1000, last_fee_calculated_date = None\<rparr>"

definition student_G :: student where
  "student_G =
     \<lparr>student_id = 4, name = ''G'', cabin = ''C7'', hall = ''Hall A'', phone = ''700'',
      fee_paid = 0, fee_due = 0, status = ''Paid'', join_date = Some ''2024-01-01'',
      left_date = Some [], monthly_fee = 250, last_fee_calculated_date = None\<rparr>"

definition db_of :: "student list \<Rightarrow> db" where
  "db_of ss = \<lparr>students = ss, study_halls = [hall_B, hall_A], student_seq = 2, hall_seq = 2\<rparr>"

section \<open>Properties\<close>

subsection \<open>Facts about dates and the accrual statement\<close>

text \<open>The bytewise order of the texts of two dates is the order of the dates.\<close>

lemma digit_nth:
  assumes "i < 10"
  shows "of_char (''0123456789'' ! i) = 48 + i"
proof -
  from assms have "i \<in> {0, 1, 2, 3, 4, 5, 6, 7, 8, 9}" by auto
  then show ?thesis by auto
qed

lemma of_char_digit: "of_char (digit n) = 48 + nat (n mod 10)"
  by (simp add: digit_def digit_nth)

lemma digit_less_iff: "digit a < digit b \<longleftrightarrow> a mod 10 < b mod 10"
proof -
  have "0 \<le> a mod 10" "0 \<le> b mod 10" by simp_all
  then have "nat (a mod 10) < nat (b mod 10) \<longleftrightarrow> a mod 10 < b mod 10" by linarith
  then show ?thesis by (simp add: less_char_def of_char_digit)
qed

lemma digit_eq_iff: "digit a = digit b \<longleftrightarrow> a mod 10 = b mod 10"
proof
  assume "digit a = digit b"
  then have "(of_char (digit a) :: nat) = of_char (digit b)" by simp
  then show "a mod 10 = b mod 10" by (simp add: of_char_digit)
next
  assume "a mod 10 = b mod 10"
  then show "digit a = digit b" by (simp add: digit_def)
qed

lemma quot_rem_less:
  fixes a b K :: int
  assumes "0 < K"
  shows "a < b \<longleftrightarrow> a div K < b div K \<or> a div K = b div K \<and> a mod K < b mod K"
proof -
  have a: "a = K * (a div K) + a mod K" and b: "b = K * (b div K) + b mod K" by simp_all
  have ra: "0 \<le> a mod K" "a mod K < K" and rb: "0 \<le> b mod K" "b mod K < K"
    using assms by simp_all
  show ?thesis
  proof (cases "a div K < b div K")
    case True
    then have "a div K + 1 \<le> b div K" by simp
    then have "K * (a div K + 1) \<le> K * (b div K)" using assms by (simp only: mult_le_cancel_left_pos)
    then have "K * (a div K) + K \<le> K * (b div K)" by (simp add: algebra_simps)
    with ra rb have "K * (a div K) + a mod K < K * (b div K) + b mod K" by linarith
    with True show ?thesis by simp
  next
    case False
    show ?thesis
    proof (cases "a div K = b div K")
      case True
      then have "a < b \<longleftrightarrow> a mod K < b mod K"
        by (metis a add_less_cancel_left b)
      with True show ?thesis by simp
    next
      case ne: False
      with False have "b div K + 1 \<le> a div K" by simp
      then have "K * (b div K + 1) \<le> K * (a div K)" using assms by (simp only: mult_le_cancel_left_pos)
      then have "K * (b div K) + K \<le> K * (a div K)" by (simp add: algebra_simps)
      with ra rb have "K * (b div K) + b mod K < K * (a div K) + a mod K" by linarith
      then have "\<not> a < b" by simp
      with False ne show ?thesis by simp
    qed
  qed
qed

lemma pad2_less_iff:
  assumes "0 \<le> a" "a < 100" "0 \<le> b" "b < 100"
  shows "pad2 a < pad2 b \<longleftrightarrow> a < b"
proof -
  have "a div 10 mod 10 = a div 10" "b div 10 mod 10 = b div 10" using assms by simp_all
  then show ?thesis
    by (simp add: pad2_def digit_less_iff digit_eq_iff quot_rem_less[of 10 a b])
qed

lemma pad2_eq_iff:
  assumes "0 \<le> a" "a < 100" "0 \<le> b" "b < 100"
  shows "pad2 a = pad2 b \<longleftrightarrow> a = b"
proof -
  have "a div 10 mod 10 = a div 10" "b div 10 mod 10 = b div 10" using assms by simp_all
  moreover have "a = b \<longleftrightarrow> a div 10 = b div 10 \<and> a mod 10 = b mod 10"
    by (metis mult_div_mod_eq)
  ultimately show ?thesis by (simp add: pad2_def digit_eq_iff)
qed

lemma quot_rem_eq:
  fixes a b K :: int
  shows "a = b \<longleftrightarrow> a div K = b div K \<and> a mod K = b mod K"
  by (metis mult_div_mod_eq)

lemma div_div_10:
  fixes a :: int
  shows "a div 10 div 10 = a div 100" "a div 100 div 10 = a div 1000"
proof -
  have "a div (10 * 10) = a div 10 div 10" by (rule zdiv_zmult2_eq) simp
  then show "a div 10 div 10 = a div 100" by simp
  have "a div (100 * 10) = a div 100 div 10" by (rule zdiv_zmult2_eq) simp
  then show "a div 100 div 10 = a div 1000" by simp
qed

lemma pad4_digits:
  fixes a :: int
  assumes "0 \<le> a" "a < 10000"
  shows "pad4 a = [digit (a div 10 div 10 div 10), digit (a div 10 div 10), digit (a div 10), digit a]"
    and "a div 10 div 10 div 10 mod 10 = a div 10 div 10 div 10"
proof -
  show "pad4 a = [digit (a div 10 div 10 div 10), digit (a div 10 div 10), digit (a div 10), digit a]"
    by (simp only: pad4_def div_div_10)
  have "0 \<le> a div 1000" "a div 1000 < 10" using assms by simp_all
  then show "a div 10 div 10 div 10 mod 10 = a div 10 div 10 div 10"
    by (simp add: div_div_10)
qed

lemma pad4_less_iff:
  assumes "0 \<le> a" "a < 10000" "0 \<le> b" "b < 10000"
  shows "pad4 a < pad4 b \<longleftrightarrow> a < b"
proof -
  define a1 a2 a3 where "a1 = a div 10" and "a2 = a1 div 10" and "a3 = a2 div 10"
  define b1 b2 b3 where "b1 = b div 10" and "b2 = b1 div 10" and "b3 = b2 div 10"
  note defs = a1_def a2_def a3_def b1_def b2_def b3_def
  have pa: "pad4 a = [digit a3, digit a2, digit a1, digit a]" "a3 mod 10 = a3"
    using pad4_digits[OF assms(1,2)] by (simp_all only: defs)
  have pb: "pad4 b = [digit b3, digit b2, digit b1, digit b]" "b3 mod 10 = b3"
    using pad4_digits[OF assms(3,4)] by (simp_all only: defs)
  have L0: "a < b \<longleftrightarrow> a1 < b1 \<or> a1 = b1 \<and> a mod 10 < b mod 10"
    unfolding defs by (rule quot_rem_less) simp
  have L1: "a1 < b1 \<longleftrightarrow> a2 < b2 \<or> a2 = b2 \<and> a1 mod 10 < b1 mod 10"
    unfolding a2_def b2_def by (rule quot_rem_less) simp
  have L2: "a2 < b2 \<longleftrightarrow> a3 < b3 \<or> a3 = b3 \<and> a2 mod 10 < b2 mod 10"
    unfolding a3_def b3_def by (rule quot_rem_less) simp
  have E1: "a1 = b1 \<longleftrightarrow> a2 = b2 \<and> a1 mod 10 = b1 mod 10"
    unfolding a2_def b2_def by (rule quot_rem_eq)
  have E2: "a2 = b2 \<longleftrightarrow> a3 = b3 \<and> a2 mod 10 = b2 mod 10"
    unfolding a3_def b3_def by (rule quot_rem_eq)
  have "pad4 a < pad4 b \<longleftrightarrow>
      a3 < b3 \<or> a3 = b3 \<and> (a2 mod 10 < b2 mod 10 \<or> a2 mod 10 = b2 mod 10 \<and>
        (a1 mod 10 < b1 mod 10 \<or> a1 mod 10 = b1 mod 10 \<and> a mod 10 < b mod 10))"
    by (simp add: pa(1) pb(1) digit_less_iff digit_eq_iff) (simp only: pa(2) pb(2))
  also have "\<dots> \<longleftrightarrow> a < b"
    using L0 L1 L2 E1 E2 by blast
  finally show ?thesis .
qed

lemma pad4_eq_iff:
  assumes "0 \<le> a" "a < 10000" "0 \<le> b" "b < 10000"
  shows "pad4 a = pad4 b \<longleftrightarrow> a = b"
proof
  assume "pad4 a = pad4 b"
  then have "\<not> pad4 a < pad4 b" "\<not> pad4 b < pad4 a" by simp_all
  then have "\<not> a < b" "\<not> b < a" using assms by (simp_all add: pad4_less_iff)
  then show "a = b" by simp
qed simp

lemma append_less_same_length:
  fixes xs ys :: "'a::linorder list"
  assumes "length xs = length ys"
  shows "xs @ u < ys @ v \<longleftrightarrow> xs < ys \<or> xs = ys \<and> u < v"
  using assms by (induction xs ys rule: list_induct2) auto

lemma length_pad: "length (pad2 a) = 2" "length (pad4 a) = 4"
  by (simp_all add: pad2_def pad4_def)

lemma iso_date_less_iff:
  assumes "iso_range a" and "iso_range b"
  shows "iso_date a < iso_date b \<longleftrightarrow> a < b"
proof -
  obtain y m d where a: "a = (y, m, d)" by (cases a) auto
  obtain y' m' d' where b: "b = (y', m', d')" by (cases b) auto
  from assms a b have r: "0 \<le> y" "y < 10000" "0 \<le> m" "m < 100" "0 \<le> d" "d < 100"
    "0 \<le> y'" "y' < 10000" "0 \<le> m'" "m' < 100" "0 \<le> d'" "d' < 100"
    by (auto simp: iso_range_def)
  have y: "pad4 y < pad4 y' \<longleftrightarrow> y < y'" "pad4 y = pad4 y' \<longleftrightarrow> y = y'"
    using r by (simp_all add: pad4_less_iff pad4_eq_iff)
  have m: "pad2 m < pad2 m' \<longleftrightarrow> m < m'" "pad2 m = pad2 m' \<longleftrightarrow> m = m'"
    using r by (simp_all add: pad2_less_iff pad2_eq_iff)
  have d: "pad2 d < pad2 d' \<longleftrightarrow> d < d'"
    using r by (simp add: pad2_less_iff)
  have "iso_date a = pad4 y @ (CHR ''-'' # pad2 m @ CHR ''-'' # pad2 d)"
    "iso_date b = pad4 y' @ (CHR ''-'' # pad2 m' @ CHR ''-'' # pad2 d')"
    using r by (simp_all add: iso_date_def a b)
  then have "iso_date a < iso_date b \<longleftrightarrow>
      y < y' \<or> y = y' \<and> (m < m' \<or> m = m' \<and> d < d')"
    by (simp only: append_less_same_length length_pad y m d Cons_less_Cons) simp
  also have "\<dots> \<longleftrightarrow> a < b" by (auto simp: a b)
  finally show ?thesis .
qed

text \<open>One month before a calendar date is an earlier date, never NULL.\<close>

lemma minus_month_before:
  assumes "valid_date D"
  shows "\<exists>b. sqlite_date_month (- 1) D = Some b \<and> b < D \<and> iso_range b"
proof -
  obtain y m d where D: "D = (y, m, d)" by (cases D) auto
  from assms D have v: "1 \<le> y" "y \<le> 9999" "1 \<le> m" "m \<le> 12" "1 \<le> d" "d \<le> days_in_month y m"
    by (auto simp: valid_date_def)
  have d31: "d \<le> 31" using v(6) by (auto simp: days_in_month_def split: if_splits)
  have dim28: "\<And>Y M. 28 \<le> days_in_month Y M" by (auto simp: days_in_month_def)
  show ?thesis
  proof (cases "m = 1")
    case True
    then show ?thesis using v d31 D
      by (auto simp: sqlite_date_month_def Let_def days_in_month_def iso_range_def)
  next
    case False
    with v have m: "2 \<le> m" by simp
    have x: "(m - 1 - 1) div 12 = 0" using m v by simp
    show ?thesis using v d31 D m dim28[of y "m - 1"] x
      by (auto simp: sqlite_date_month_def Let_def iso_range_def)
  qed
qed

lemma valid_date_iso_range: "valid_date D \<Longrightarrow> iso_range D"
  by (auto simp: valid_date_def iso_range_def days_in_month_def split: if_splits)

lemma accrual_set_not_selected:
  assumes "valid_date D"
  shows "\<not> accrual_selects D (accrual_set D s)"
proof -
  from minus_month_before[OF assms] obtain b
    where b: "sqlite_date_month (- 1) D = Some b" "b < D" "iso_range b"
    by blast
  from b(2) have "\<not> D < b" by auto
  then have "\<not> iso_date D < iso_date b"
    using iso_date_less_iff[OF valid_date_iso_range[OF assms] b(3)] by simp
  with b(1) show ?thesis by (simp add: accrual_selects_def accrual_set_def)
qed

lemma students_runMonthlyAccrual:
  "students (fst (runMonthlyAccrual D d)) =
     map (\<lambda>s. if accrual_selects D s then accrual_set D s else s) (students d)"
  by (simp add: runMonthlyAccrual_def)

lemma snd_runMonthlyAccrual:
  "snd (runMonthlyAccrual D d) = length (filter (accrual_selects D) (students d))"
  by (simp add: runMonthlyAccrual_def)

lemma second_run_selects_none:
  assumes "valid_date D"
  shows "filter (accrual_selects D) (students (fst (runMonthlyAccrual D d))) = []"
  using accrual_set_not_selected[OF assms]
  by (auto simp: students_runMonthlyAccrual filter_empty_conv)

lemmas example_defs = example_db_def student_A_def student_B_def hall_A_def hall_B_def

lemma valid_2024_02_02: "valid_date (2024, 2, 2)"
  by (simp add: valid_date_def days_in_month_def leap_year_def)

lemma selects_A: "accrual_selects (2024, 2, 2) student_A"
  by (simp add: student_A_def accrual_selects_def)

lemma selects_not_B: "\<not> accrual_selects D student_B"
  by (simp add: student_B_def accrual_selects_def)

lemma parseInt_Str_0: "parseInt (Str ''0'') = Some 0"
  by (simp add: parseInt_def parseInt_string_def str_white_space_def radix_digit_def
      digit_value_def digits_value_def Let_def)

lemma iso_date_2024_01_01: "iso_date (2024, 1, 1) = ''2024-01-01''"
  by (simp add: iso_date_def pad2_def pad4_def digit_def)

lemma createStudent_body_C:
  "createStudent (2024, 1, 1) body_C empty_db =
     Inr (1, \<lparr>students = [student_C], study_halls = [], student_seq = 1, hall_seq = 0\<rparr>)"
  by (simp add: createStudent_def body_C_def student_C_def empty_db_def truthy_def text_of_def
      parseInt_def or0_def next_rowid_def Let_def)

lemma createStudent_body_D:
  "createStudent (2024, 1, 1) body_D empty_db =
     Inr (1, \<lparr>students = [student_D], study_halls = [], student_seq = 1, hall_seq = 0\<rparr>)"
  by (simp add: createStudent_def body_D_def student_D_def empty_db_def truthy_def text_of_def
      parseInt_def or0_def next_rowid_def Let_def iso_date_2024_01_01)

subsection \<open>Facts about the views and the study halls\<close>

lemma plus_month_same_day:
  assumes "valid_date (y, m, d)" and "d \<le> 28" and "y < 9999"
  shows "sqlite_date_month 1 (y, m, d) = Some (if m = 12 then (y + 1, 1, d) else (y, m + 1, d))"
proof -
  from assms have v: "0 \<le> y" "1 \<le> m" "m \<le> 12" "1 \<le> d"
    by (auto simp: valid_date_def)
  have dim28: "\<And>Y M. 28 \<le> days_in_month Y M" by (auto simp: days_in_month_def)
  show ?thesis
  proof (cases "m = 12")
    case True
    then show ?thesis using v assms(2,3) dim28[of "y + 1" 1]
      by (simp add: sqlite_date_month_def Let_def)
  next
    case False
    with v have "m + 1 - 1 = m" "m div 12 = 0" by simp_all
    then show ?thesis using v assms(2,3) False dim28[of y "m + 1"]
      by (simp add: sqlite_date_month_def Let_def)
  qed
qed

lemma plus_month_2024_03_10: "sqlite_date_month 1 (2024, 3, 10) = Some (2024, 4, 10)"
  by (simp add: sqlite_date_month_def days_in_month_def Let_def)

lemma iso_date_2024_04_10: "iso_date (2024, 4, 10) = ''2024-04-10''"
  by (simp add: iso_date_def pad2_def pad4_def digit_def)

lemma hall_id_inj:
  assumes "distinct (map hall_id xs)" and "h \<in> set xs" and "x \<in> set xs"
  shows "hall_id x = hall_id h \<longleftrightarrow> x = h"
  using assms by (auto simp: distinct_map dest: inj_onD)

lemma filter_hall_id:
  assumes "distinct (map hall_id xs)" and "h \<in> set xs"
  shows "filter (\<lambda>x. hall_id x = hall_id h) xs = [h]"
    and "filter (\<lambda>x. hall_id x \<noteq> hall_id h) xs = filter (\<lambda>x. x \<noteq> h) xs"
proof -
  have "filter (\<lambda>x. hall_id x = hall_id h) xs = filter (\<lambda>x. x = h) xs"
    using hall_id_inj[OF assms] by (intro filter_cong) auto
  moreover have "distinct xs" using assms(1) by (simp add: distinct_map)
  then have "filter (\<lambda>x. x = h) xs = [h]"
    using assms(2) by (induction xs) (auto simp: filter_empty_conv)
  ultimately show "filter (\<lambda>x. hall_id x = hall_id h) xs = [h]" by simp
  show "filter (\<lambda>x. hall_id x \<noteq> hall_id h) xs = filter (\<lambda>x. x \<noteq> h) xs"
    using hall_id_inj[OF assms] by (intro filter_cong) auto
qed

lemma hall_name_of_id_member:
  assumes "distinct (map hall_id (study_halls d))" and "h \<in> set (study_halls d)"
  shows "hall_name_of_id (hall_id h) d = Some (hall_name h)"
  by (simp add: hall_name_of_id_def filter_hall_id(1)[OF assms])

lemma deleteStudyHall_free:
  assumes "distinct (map hall_id (study_halls d))" and "h \<in> set (study_halls d)"
    and "filter (\<lambda>s. hall s = hall_name h) (students d) = []"
  shows "deleteStudyHall (hall_id h) d =
        Inr (d\<lparr>study_halls := filter (\<lambda>x. x \<noteq> h) (study_halls d)\<rparr>)"
  using assms(3) hall_name_of_id_member[OF assms(1,2)] filter_hall_id[OF assms(1,2)]
  by (simp add: deleteStudyHall_def students_in_hall_count_def)

lemma deleteStudyHall_occupied:
  assumes "distinct (map hall_id (study_halls d))" and "h \<in> set (study_halls d)"
    and "filter (\<lambda>s. hall s = hall_name h) (students d) \<noteq> []"
  shows "deleteStudyHall (hall_id h) d =
        Inl (HttpError 400 ''Cannot delete study hall with students assigned to it'')"
  using assms(3) hall_name_of_id_member[OF assms(1,2)]
  by (simp add: deleteStudyHall_def students_in_hall_count_def)

lemma deleteStudent_unique:
  assumes "s \<in> set (students d)"
    and "\<forall>x \<in> set (students d). student_id x = student_id s \<longrightarrow> x = s"
  shows "deleteStudent (student_id s) d =
        Inr (d\<lparr>students := filter (\<lambda>x. x \<noteq> s) (students d)\<rparr>)"
proof -
  have "filter (\<lambda>x. student_id x = student_id s) (students d) \<noteq> []"
    using assms(1) by (auto simp: filter_empty_conv)
  moreover have "filter (\<lambda>x. student_id x \<noteq> student_id s) (students d) =
      filter (\<lambda>x. x \<noteq> s) (students d)"
    using assms(2) by (intro filter_cong) auto
  ultimately show ?thesis by (simp add: deleteStudent_def)
qed

lemma hall_name_of_id_absent:
  assumes "\<forall>h \<in> set (study_halls d). hall_id h \<noteq> k"
  shows "hall_name_of_id k d = None"
proof -
  from assms have "filter (\<lambda>h. hall_id h = k) (study_halls d) = []"
    by (simp add: filter_empty_conv)
  then show ?thesis by (simp add: hall_name_of_id_def)
qed

lemma two_rows: "length xs = 2 \<Longrightarrow> xs = [xs ! 0, xs ! Suc 0]"
  by (auto simp: length_Suc_conv numeral_2_eq_2)

text \<open>The rounded rate is a tenth nearest to the exact quotient, whichever side a tie takes.\<close>

lemma sign_product:
  "sgn a * sgn b * q * b - 1000 * a = sgn a * (q * \<bar>b\<bar> - 1000 * \<bar>a\<bar>)" for a b q :: int
proof -
  have 1: "sgn b * b = \<bar>b\<bar>" by (simp add: abs_sgn mult.commute)
  have 2: "sgn a * \<bar>a\<bar> = a" by (simp add: sgn_mult_abs)
  have "sgn a * sgn b * q * b = sgn a * (q * (sgn b * b))" by (simp add: algebra_simps)
  also have "\<dots> = sgn a * (q * \<bar>b\<bar>)" by (simp only: 1)
  finally have 3: "sgn a * sgn b * q * b = sgn a * (q * \<bar>b\<bar>)" .
  have "sgn a * (1000 * \<bar>a\<bar>) = 1000 * (sgn a * \<bar>a\<bar>)" by (simp only: mult.left_commute)
  then have 4: "sgn a * (1000 * \<bar>a\<bar>) = 1000 * a" by (simp only: 2)
  show ?thesis by (simp only: 3 4 right_diff_distrib)
qed

lemma half_window:
  "2 * X = B - r \<Longrightarrow> 0 \<le> r \<Longrightarrow> r < 2 * B \<Longrightarrow> 2 * \<bar>X\<bar> \<le> B" for X B r :: int
  by linarith

lemma half_exact:
  "2 * X = - B \<Longrightarrow> 0 \<le> B \<Longrightarrow> 2 * \<bar>X\<bar> \<le> B" for X B :: int
  by linarith

lemma sql_round_rate_nearest:
  assumes "b \<noteq> 0"
  shows "2 * \<bar>sql_round_rate away a b * b - 1000 * a\<bar> \<le> \<bar>b\<bar>"
proof -
  define q where "q = (2000 * \<bar>a\<bar> + \<bar>b\<bar>) div (2 * \<bar>b\<bar>)"
  define r where "r = (2000 * \<bar>a\<bar> + \<bar>b\<bar>) mod (2 * \<bar>b\<bar>)"
  define k where "k = (if r = 0 \<and> \<not> away a b then q - 1 else q)"
  define X where "X = k * \<bar>b\<bar> - 1000 * \<bar>a\<bar>"
  have pos: "0 < 2 * \<bar>b\<bar>" using assms by simp
  have r: "0 \<le> r" "r < 2 * \<bar>b\<bar>"
    unfolding r_def using pos by (simp_all only: pos_mod_sign pos_mod_bound)
  have qr: "q * (2 * \<bar>b\<bar>) + r = 2000 * \<bar>a\<bar> + \<bar>b\<bar>"
    unfolding q_def r_def by (rule div_mult_mod_eq)
  have key: "2 * \<bar>X\<bar> \<le> \<bar>b\<bar>"
  proof (cases "r = 0 \<and> \<not> away a b")
    case True
    then have "q = k + 1" by (simp add: k_def)
    then have "q * (2 * \<bar>b\<bar>) = 2 * (k * \<bar>b\<bar>) + 2 * \<bar>b\<bar>"
      by (simp add: algebra_simps)
    with qr True have "2 * (k * \<bar>b\<bar>) + \<bar>b\<bar> = 2000 * \<bar>a\<bar>" by simp
    then have "2 * X = - \<bar>b\<bar>" by (simp add: X_def algebra_simps)
    then show ?thesis by (rule half_exact) simp
  next
    case False
    then have "k = q" by (simp add: k_def)
    with qr have "2 * X = \<bar>b\<bar> - r" by (simp add: X_def algebra_simps)
    then show ?thesis using r by (rule half_window)
  qed
  have "sql_round_rate away a b = sgn a * sgn b * k"
    by (simp add: sql_round_rate_def Let_def k_def q_def r_def)
  then have "sql_round_rate away a b * b - 1000 * a = sgn a * X"
    unfolding X_def by (simp only: sign_product)
  then have "\<bar>sql_round_rate away a b * b - 1000 * a\<bar> = \<bar>sgn a\<bar> * \<bar>X\<bar>"
    by (simp add: abs_mult)
  also have "\<dots> \<le> \<bar>X\<bar>"
    by (cases "a = 0") (simp_all add: abs_sgn_eq)
  finally have "2 * \<bar>sql_round_rate away a b * b - 1000 * a\<bar> \<le> 2 * \<bar>X\<bar>" by simp
  then show ?thesis using key by (rule order_trans)
qed

lemma number_to_string_0: "number_to_string 0 = ''0''"
  by (simp add: number_to_string_def digit_def)

lemma report_group_fields:
  "rep_hall (report_group away d sh) = hall_name sh"
  "rep_totalStudents (report_group away d sh) =
     length (filter (\<lambda>s. hall s = hall_name sh) (students d))"
  "feesCollected (report_group away d sh) =
     sum_list (map fee_paid (filter (\<lambda>s. hall s = hall_name sh) (students d)))"
  "feesPending (report_group away d sh) =
     sum_list (map fee_due (filter (\<lambda>s. hall s = hall_name sh) (students d)))"
  "rep_totalFeeAmount (report_group away d sh) =
     sum_list (map (\<lambda>s. fee_paid s + fee_due s)
       (filter (\<lambda>s. hall s = hall_name sh) (students d)))"
proof -
  have c: "(\<lambda>s. hall_name sh = hall s) = (\<lambda>s. hall s = hall_name sh)" by auto
  show "rep_hall (report_group away d sh) = hall_name sh"
    by (simp add: report_group_def Let_def)
  show "rep_totalStudents (report_group away d sh) =
     length (filter (\<lambda>s. hall s = hall_name sh) (students d))"
    by (simp add: report_group_def Let_def c)
  show "feesCollected (report_group away d sh) =
     sum_list (map fee_paid (filter (\<lambda>s. hall s = hall_name sh) (students d)))"
    by (simp add: report_group_def Let_def c)
  show "feesPending (report_group away d sh) =
     sum_list (map fee_due (filter (\<lambda>s. hall s = hall_name sh) (students d)))"
    by (simp add: report_group_def Let_def c)
  show "rep_totalFeeAmount (report_group away d sh) =
     sum_list (map (\<lambda>s. fee_paid s + fee_due s)
       (filter (\<lambda>s. hall s = hall_name sh) (students d)))"
    by (simp add: report_group_def Let_def c)
qed

lemma report_group_rate:
  "collectionRate (report_group away d sh) =
     (if rep_totalStudents (report_group away d sh) = 0 \<or>
         rep_totalFeeAmount (report_group away d sh) = 0
      then ''0%''
      else number_to_string
             (sql_round_rate away (feesCollected (report_group away d sh))
                (rep_totalFeeAmount (report_group away d sh))) @ ''%'')"
  by (simp add: report_group_def Let_def number_to_string_0)

lemma rate_1000_3000:
  "sql_round_rate away 1000 3000 = 333" "number_to_string 333 = ''33.3''"
  by (simp_all add: sql_round_rate_def number_to_string_def digit_def Let_def)

subsection \<open>Status and balance\<close>

text \<open>
  Claim C1, as the code has it. Creating a student with no \<open>feeDue\<close> stores the balance 0
  with the status Pending, and an accrual that brings a negative balance to exactly 0
  leaves the status Pending: the stored status is not in every case the rule applied to
  the stored balance.
\<close>

theorem status_not_derived_counterexample:
  "createStudent (2024, 1, 1) body_D empty_db =
     Inr (1, \<lparr>students = [student_D], study_halls = [], student_seq = 1, hall_seq = 0\<rparr>) \<and>
   feeDue body_D = Undefined \<and> fee_due student_D = 0 \<and> status student_D \<noteq> ''Paid'' \<and>
   createStudent (2024, 1, 1) body_C empty_db =
     Inr (1, \<lparr>students = [student_C], study_halls = [], student_seq = 1, hall_seq = 0\<rparr>) \<and>
   fee_due (hd (students (fst (runMonthlyAccrual (2024, 2, 2)
      \<lparr>students = [student_C], study_halls = [], student_seq = 1, hall_seq = 0\<rparr>)))) = 0 \<and>
   status (hd (students (fst (runMonthlyAccrual (2024, 2, 2)
      \<lparr>students = [student_C], study_halls = [], student_seq = 1, hall_seq = 0\<rparr>)))) \<noteq> ''Paid''"
proof -
  have "accrual_selects (2024, 2, 2) student_C"
    by (simp add: student_C_def accrual_selects_def)
  then show ?thesis
    by (simp add: createStudent_body_C createStudent_body_D runMonthlyAccrual_def accrual_set_def)
      (simp add: student_C_def student_D_def body_D_def)
qed

text \<open>
  Claim C1, amended. When \<open>parseInt\<close> reads the request's \<open>feeDue\<close> as an integer \<open>n\<close>,
  student creation and student edit store the balance \<open>n\<close> with the status Paid if
  \<open>n = 0\<close> and Pending for every other value, negative ones included. The accrual stores
  the old balance plus the monthly fee, with the status Pending if that sum is positive
  and the status the row had before otherwise.
\<close>

theorem status_written:
  "(parseInt (feeDue body) = Some n \<and> createStudent today body d = Inr (i, d1) \<longrightarrow>
      students d1 = students d @ [last (students d1)] \<and>
      fee_due (last (students d1)) = n \<and>
      status (last (students d1)) = (if n = 0 then ''Paid'' else ''Pending'')) \<and>
   (parseInt (feeDue body) = Some n \<and> updateStudent k body d = Inr d2 \<and>
    j < length (students d) \<and> student_id (students d ! j) = k \<longrightarrow>
      fee_due (students d2 ! j) = n \<and>
      status (students d2 ! j) = (if n = 0 then ''Paid'' else ''Pending'')) \<and>
   (j < length (students d) \<and> accrual_selects D (students d ! j) \<longrightarrow>
      fee_due (students (fst (runMonthlyAccrual D d)) ! j) =
        fee_due (students d ! j) + monthly_fee (students d ! j) \<and>
      status (students (fst (runMonthlyAccrual D d)) ! j) =
        (if fee_due (students (fst (runMonthlyAccrual D d)) ! j) > 0 then ''Pending''
         else status (students d ! j)))"
proof (intro conjI impI)
  assume a: "parseInt (feeDue body) = Some n \<and> createStudent today body d = Inr (i, d1)"
  then show "students d1 = students d @ [last (students d1)]"
    by (auto simp: createStudent_def Let_def split: if_splits)
  from a show "fee_due (last (students d1)) = n"
    by (auto simp: createStudent_def Let_def or0_def split: if_splits)
  from a show "status (last (students d1)) = (if n = 0 then ''Paid'' else ''Pending'')"
    by (auto simp: createStudent_def Let_def or0_def split: if_splits)
next
  assume a: "parseInt (feeDue body) = Some n \<and> updateStudent k body d = Inr d2 \<and>
    j < length (students d) \<and> student_id (students d ! j) = k"
  then have s: "students d2 ! j = update_set body (students d ! j)"
    by (auto simp: updateStudent_def split: if_splits)
  from a show "fee_due (students d2 ! j) = n" unfolding s
    by (simp add: update_set_def or0_def)
  from a show "status (students d2 ! j) = (if n = 0 then ''Paid'' else ''Pending'')"
    unfolding s by (simp add: update_set_def)
next
  assume a: "j < length (students d) \<and> accrual_selects D (students d ! j)"
  then show "fee_due (students (fst (runMonthlyAccrual D d)) ! j) =
        fee_due (students d ! j) + monthly_fee (students d ! j)"
    by (simp add: students_runMonthlyAccrual accrual_set_def)
  from a show "status (students (fst (runMonthlyAccrual D d)) ! j) =
        (if fee_due (students (fst (runMonthlyAccrual D d)) ! j) > 0 then ''Pending''
         else status (students d ! j))"
    by (simp add: students_runMonthlyAccrual accrual_set_def accrual_selects_def)
qed

theorem status_written_witness:
  "parseInt (feeDue body_B) = Some 0 \<and>
   createStudent (2024, 1, 1) body_B empty_db =
     Inr (1, snd (projr (createStudent (2024, 1, 1) body_B empty_db))) \<and>
   fee_due (last (students (snd (projr (createStudent (2024, 1, 1) body_B empty_db))))) = 0 \<and>
   status (last (students (snd (projr (createStudent (2024, 1, 1) body_B empty_db))))) = ''Paid'' \<and>
   parseInt (feeDue body_C) = Some (- 500) \<and>
   updateStudent 1 body_C example_db = Inr (projr (updateStudent 1 body_C example_db)) \<and>
   student_id (students example_db ! 0) = 1 \<and>
   fee_due (students (projr (updateStudent 1 body_C example_db)) ! 0) = - 500 \<and>
   status (students (projr (updateStudent 1 body_C example_db)) ! 0) = ''Pending'' \<and>
   accrual_selects (2024, 2, 2) (students example_db ! 0) \<and>
   fee_due (students (fst (runMonthlyAccrual (2024, 2, 2) example_db)) ! 0) = 500 \<and>
   status (students (fst (runMonthlyAccrual (2024, 2, 2) example_db)) ! 0) = ''Pending''"
proof -
  have pB: "parseInt (feeDue body_B) = Some 0"
    by (simp add: body_B_def parseInt_Str_0)
  have cB: "createStudent (2024, 1, 1) body_B empty_db =
     Inr (1, snd (projr (createStudent (2024, 1, 1) body_B empty_db)))"
    by (simp add: createStudent_def body_B_def empty_db_def truthy_def next_rowid_def Let_def)
  have pC: "parseInt (feeDue body_C) = Some (- 500)"
    by (simp add: body_C_def parseInt_def)
  have uC: "updateStudent 1 body_C example_db = Inr (projr (updateStudent 1 body_C example_db))"
    by (simp add: updateStudent_def body_C_def example_defs truthy_def)
  have i0: "0 < length (students example_db)" "student_id (students example_db ! 0) = 1"
    by (simp_all add: example_defs)
  have sA: "accrual_selects (2024, 2, 2) (students example_db ! 0)"
    using selects_A by (simp add: example_db_def)
  have fA: "fee_due (students example_db ! 0) = 0" "monthly_fee (students example_db ! 0) = 500"
    by (simp_all add: example_defs)
  from status_written[of body_B 0 "(2024, 1, 1)" empty_db 1
      "snd (projr (createStudent (2024, 1, 1) body_B empty_db))"] pB cB
  have 1: "fee_due (last (students (snd (projr (createStudent (2024, 1, 1) body_B empty_db))))) = 0 \<and>
    status (last (students (snd (projr (createStudent (2024, 1, 1) body_B empty_db))))) = ''Paid''"
    by simp
  from status_written[of body_C "- 500" _ example_db _ _ 1
      "projr (updateStudent 1 body_C example_db)" 0] pC uC i0
  have 2: "fee_due (students (projr (updateStudent 1 body_C example_db)) ! 0) = - 500 \<and>
    status (students (projr (updateStudent 1 body_C example_db)) ! 0) = ''Pending''"
    by simp
  from status_written[of _ _ _ example_db _ _ _ _ 0 "(2024, 2, 2)"] i0 sA fA
  have 3: "fee_due (students (fst (runMonthlyAccrual (2024, 2, 2) example_db)) ! 0) = 500 \<and>
    status (students (fst (runMonthlyAccrual (2024, 2, 2) example_db)) ! 0) = ''Pending''"
    by simp
  from pB cB pC uC i0 sA 1 2 3 show ?thesis by blast
qed

subsection \<open>The monthly accrual\<close>

text \<open>
  Claim C2. Two runs of the accrual in succession with the same valid reference date
  \<open>D\<close>: the first run reports the number of students its WHERE clause selects, stamps
  each of them with \<open>D\<close> and leaves the others as they were; after it no student is
  selected for \<open>D\<close> any more, so the second run reports 0 and leaves the database as
  the first run left it.
\<close>

theorem accrual_idempotent:
  assumes "valid_date D"
    and "runMonthlyAccrual D d = (d1, n1)"
    and "runMonthlyAccrual D d1 = (d2, n2)"
  shows "n1 = length (filter (accrual_selects D) (students d)) \<and>
         (\<forall>i < length (students d).
            (accrual_selects D (students d ! i) \<longrightarrow>
               last_fee_calculated_date (students d1 ! i) = Some D) \<and>
            (\<not> accrual_selects D (students d ! i) \<longrightarrow> students d1 ! i = students d ! i)) \<and>
         (\<forall>s \<in> set (students d1). \<not> accrual_selects D s) \<and>
         n2 = 0 \<and> d2 = d1"
proof -
  have d1: "d1 = fst (runMonthlyAccrual D d)" and n1: "n1 = snd (runMonthlyAccrual D d)"
    using assms(2) by simp_all
  have none: "filter (accrual_selects D) (students d1) = []"
    unfolding d1 by (rule second_run_selects_none[OF assms(1)])
  then have nosel: "\<forall>s \<in> set (students d1). \<not> accrual_selects D s"
    by (simp add: filter_empty_conv)
  have "n2 = 0" using assms(3) none by (simp add: runMonthlyAccrual_def)
  moreover have "map (\<lambda>s. if accrual_selects D s then accrual_set D s else s) (students d1) =
      students d1"
    using nosel by (simp add: map_idI)
  then have "d2 = d1" using assms(3) by (auto simp: runMonthlyAccrual_def)
  moreover have "\<forall>i < length (students d).
            (accrual_selects D (students d ! i) \<longrightarrow>
               last_fee_calculated_date (students d1 ! i) = Some D) \<and>
            (\<not> accrual_selects D (students d ! i) \<longrightarrow> students d1 ! i = students d ! i)"
    unfolding d1 by (simp add: students_runMonthlyAccrual accrual_set_def)
  ultimately show ?thesis using n1 nosel by (simp add: snd_runMonthlyAccrual)
qed

theorem accrual_idempotent_witness:
  "valid_date (2024, 2, 2) \<and>
   snd (runMonthlyAccrual (2024, 2, 2) example_db) = 1 \<and>
   snd (runMonthlyAccrual (2024, 2, 2) (fst (runMonthlyAccrual (2024, 2, 2) example_db))) = 0 \<and>
   fst (runMonthlyAccrual (2024, 2, 2) (fst (runMonthlyAccrual (2024, 2, 2) example_db))) =
     fst (runMonthlyAccrual (2024, 2, 2) example_db)"
proof -
  have sel: "filter (accrual_selects (2024, 2, 2)) (students example_db) = [student_A]"
    using selects_A selects_not_B by (simp add: example_db_def)
  from accrual_idempotent[OF valid_2024_02_02 surjective_pairing surjective_pairing,
      of example_db] sel valid_2024_02_02
  show ?thesis by simp
qed

text \<open>
  Claim C3. After a run of the accrual with reference date \<open>D\<close>, every student the run
  selects has the balance it had before plus its monthly fee and the stamp \<open>D\<close>; every
  other student's row is as it was; the study halls are untouched; and the run reports
  the number of students it selected.
\<close>

theorem accrual_effect:
  assumes "runMonthlyAccrual D d = (d', n)"
  shows "length (students d') = length (students d) \<and>
         n = length (filter (accrual_selects D) (students d)) \<and>
         (\<forall>i < length (students d).
            (accrual_selects D (students d ! i) \<longrightarrow>
               fee_due (students d' ! i) =
                 fee_due (students d ! i) + monthly_fee (students d ! i) \<and>
               last_fee_calculated_date (students d' ! i) = Some D) \<and>
            (\<not> accrual_selects D (students d ! i) \<longrightarrow> students d' ! i = students d ! i)) \<and>
         study_halls d' = study_halls d"
  using assms by (auto simp: runMonthlyAccrual_def accrual_set_def)

theorem accrual_effect_witness:
  "fee_due (students (fst (runMonthlyAccrual (2024, 2, 2) example_db)) ! 0) = 500 \<and>
   last_fee_calculated_date (students (fst (runMonthlyAccrual (2024, 2, 2) example_db)) ! 0) =
     Some (2024, 2, 2) \<and>
   students (fst (runMonthlyAccrual (2024, 2, 2) example_db)) ! 1 = student_B \<and>
   snd (runMonthlyAccrual (2024, 2, 2) example_db) = 1"
proof -
  have l: "students example_db = [student_A, student_B]" by (simp add: example_db_def)
  have f: "fee_due student_A = 0" "monthly_fee student_A = 500" by (simp_all add: student_A_def)
  from accrual_effect[OF surjective_pairing, of "(2024, 2, 2)" example_db]
    selects_A selects_not_B[of "(2024, 2, 2)"] l f
  show ?thesis by (simp add: All_less_Suc)
qed

text \<open>
  Claim C4. A student whose \<open>left_date\<close> is not NULL is never touched by the accrual:
  after any sequence of runs, with any reference dates, the row is exactly as it was,
  whatever its monthly fee and its last stamp.
\<close>

theorem accrual_skips_departed:
  assumes "i < length (students d)" and "left_date (students d ! i) \<noteq> None"
  shows "length (students (fold (\<lambda>D x. fst (runMonthlyAccrual D x)) Ds d)) =
           length (students d) \<and>
         students (fold (\<lambda>D x. fst (runMonthlyAccrual D x)) Ds d) ! i = students d ! i"
  using assms
proof (induction Ds arbitrary: d)
  case Nil
  then show ?case by simp
next
  case (Cons D Ds)
  let ?d1 = "fst (runMonthlyAccrual D d)"
  have ns: "\<not> accrual_selects D (students d ! i)"
    using Cons.prems(2) by (simp add: accrual_selects_def)
  have len: "length (students ?d1) = length (students d)"
    by (simp add: students_runMonthlyAccrual)
  have same: "students ?d1 ! i = students d ! i"
    using Cons.prems(1) ns by (simp add: students_runMonthlyAccrual)
  from Cons.IH[of ?d1] Cons.prems len same show ?case by simp
qed

theorem accrual_skips_departed_witness:
  "left_date (students example_db ! 1) \<noteq> None \<and>
   students (fold (\<lambda>D x. fst (runMonthlyAccrual D x)) [(2024, 2, 2), (2024, 3, 5)]
      example_db) ! 1 = student_B"
proof -
  have i: "1 < length (students example_db)" by (simp add: example_db_def)
  have l: "left_date (students example_db ! 1) \<noteq> None" by (simp add: example_defs)
  have b: "students example_db ! 1 = student_B" by (simp add: example_db_def)
  from accrual_skips_departed[OF i l, of "[(2024, 2, 2), (2024, 3, 5)]"] l b
  show ?thesis by simp
qed

text \<open>
  Claim C5. In a run of the accrual the status of a row becomes Pending exactly when the
  row is selected, its monthly fee is positive and its old balance plus the monthly fee
  is positive; in every other case the status stays what it was. So a run never turns a
  status into Paid: a row that is Paid afterwards was Paid before.
\<close>

theorem accrual_status:
  assumes "i < length (students d)"
  shows "status (students (fst (runMonthlyAccrual D d)) ! i) =
           (if accrual_selects D (students d ! i) \<and> monthly_fee (students d ! i) > 0 \<and>
               fee_due (students d ! i) + monthly_fee (students d ! i) > 0
            then ''Pending'' else status (students d ! i)) \<and>
         (status (students (fst (runMonthlyAccrual D d)) ! i) = ''Paid'' \<longrightarrow>
            status (students d ! i) = ''Paid'')"
  using assms by (simp add: students_runMonthlyAccrual accrual_set_def)

theorem accrual_status_witness:
  "status (students (fst (runMonthlyAccrual (2024, 2, 2) example_db)) ! 0) = ''Pending'' \<and>
   status (students (fst (runMonthlyAccrual (2024, 2, 2) (db_of [student_C]))) ! 0) =
     ''Pending'' \<and>
   fee_due (students (fst (runMonthlyAccrual (2024, 2, 2) (db_of [student_C]))) ! 0) = 0"
proof -
  have i: "0 < length (students example_db)" "0 < length (students (db_of [student_C]))"
    by (simp_all add: example_db_def db_of_def)
  have a: "students example_db ! 0 = student_A" "students (db_of [student_C]) ! 0 = student_C"
    by (simp_all add: example_db_def db_of_def)
  have c: "accrual_selects (2024, 2, 2) student_C"
    by (simp add: student_C_def accrual_selects_def)
  have f: "fee_due student_A = 0" "monthly_fee student_A = 500"
    "fee_due student_C = - 500" "monthly_fee student_C = 500" "status student_C = ''Pending''"
    by (simp_all add: student_A_def student_C_def)
  have due: "fee_due (students (fst (runMonthlyAccrual (2024, 2, 2) (db_of [student_C]))) ! 0) = 0"
    using c by (simp add: students_runMonthlyAccrual db_of_def accrual_set_def student_C_def)
  from accrual_status[OF i(1), of "(2024, 2, 2)"] accrual_status[OF i(2), of "(2024, 2, 2)"]
    a selects_A c f due
  show ?thesis by simp
qed

subsection \<open>The views\<close>

text \<open>
  Claim C6. The fee-collection report has one row for each study hall, also for a hall
  that no student names, and the rows are in the order of the hall names. A row counts
  and sums the students whose \<open>hall\<close> is the hall's name. Its \<open>collectionRate\<close> is the
  text \<open>0%\<close> when the hall has no student or the total fee amount is 0; otherwise it is the
  quotient \<open>feesCollected * 100 / totalFeeAmount\<close> rounded to a nearest tenth, printed
  as a number followed by the percent sign.
\<close>

theorem fee_collection_report:
  "mset (map rep_hall (getFeeCollectionReport away d)) = mset (map hall_name (study_halls d)) \<and>
   sorted (map rep_hall (getFeeCollectionReport away d)) \<and>
   (\<forall>row \<in> set (getFeeCollectionReport away d).
      rep_totalStudents row = length (filter (\<lambda>s. hall s = rep_hall row) (students d)) \<and>
      feesCollected row =
        sum_list (map fee_paid (filter (\<lambda>s. hall s = rep_hall row) (students d))) \<and>
      rep_totalFeeAmount row =
        sum_list (map (\<lambda>s. fee_paid s + fee_due s)
          (filter (\<lambda>s. hall s = rep_hall row) (students d))) \<and>
      (rep_totalStudents row = 0 \<or> rep_totalFeeAmount row = 0 \<longrightarrow>
         collectionRate row = ''0%'') \<and>
      (rep_totalStudents row \<noteq> 0 \<and> rep_totalFeeAmount row \<noteq> 0 \<longrightarrow>
         collectionRate row =
           number_to_string (sql_round_rate away (feesCollected row) (rep_totalFeeAmount row)) @ ''%'' \<and>
         2 * \<bar>sql_round_rate away (feesCollected row) (rep_totalFeeAmount row) *
                rep_totalFeeAmount row - 1000 * feesCollected row\<bar>
           \<le> \<bar>rep_totalFeeAmount row\<bar>))"
proof (intro conjI ballI)
  have m: "map rep_hall (getFeeCollectionReport away d) =
      map hall_name (sort_key hall_name (study_halls d))"
    by (simp add: getFeeCollectionReport_def report_group_fields(1) comp_def)
  show "mset (map rep_hall (getFeeCollectionReport away d)) = mset (map hall_name (study_halls d))"
    by (simp add: m)
  show "sorted (map rep_hall (getFeeCollectionReport away d))"
    unfolding m by (rule sorted_sort_key)
next
  fix row assume "row \<in> set (getFeeCollectionReport away d)"
  then obtain sh where row: "row = report_group away d sh"
    by (auto simp: getFeeCollectionReport_def)
  show "rep_totalStudents row = length (filter (\<lambda>s. hall s = rep_hall row) (students d))"
    by (simp add: row report_group_fields)
  show "feesCollected row =
        sum_list (map fee_paid (filter (\<lambda>s. hall s = rep_hall row) (students d)))"
    by (simp add: row report_group_fields)
  show "rep_totalFeeAmount row =
        sum_list (map (\<lambda>s. fee_paid s + fee_due s)
          (filter (\<lambda>s. hall s = rep_hall row) (students d)))"
    by (simp add: row report_group_fields)
  show "rep_totalStudents row = 0 \<or> rep_totalFeeAmount row = 0 \<longrightarrow>
         collectionRate row = ''0%''"
    unfolding row by (subst report_group_rate) simp
  show "rep_totalStudents row \<noteq> 0 \<and> rep_totalFeeAmount row \<noteq> 0 \<longrightarrow>
         collectionRate row =
           number_to_string (sql_round_rate away (feesCollected row) (rep_totalFeeAmount row)) @ ''%'' \<and>
         2 * \<bar>sql_round_rate away (feesCollected row) (rep_totalFeeAmount row) *
                rep_totalFeeAmount row - 1000 * feesCollected row\<bar>
           \<le> \<bar>rep_totalFeeAmount row\<bar>"
  proof (intro impI conjI)
    assume a: "rep_totalStudents row \<noteq> 0 \<and> rep_totalFeeAmount row \<noteq> 0"
    then show "collectionRate row =
           number_to_string (sql_round_rate away (feesCollected row) (rep_totalFeeAmount row)) @ ''%''"
      unfolding row by (subst report_group_rate) simp
    from a show "2 * \<bar>sql_round_rate away (feesCollected row) (rep_totalFeeAmount row) *
                rep_totalFeeAmount row - 1000 * feesCollected row\<bar>
           \<le> \<bar>rep_totalFeeAmount row\<bar>"
      by (simp add: sql_round_rate_nearest)
  qed
qed

theorem fee_collection_report_witness:
  "getFeeCollectionReport (\<lambda>a b. True) (db_of [student_F]) =
     [\<lparr>rep_hall = ''Hall A'', rep_totalStudents = 0, feesCollected = 0, feesPending = 0,
       rep_totalFeeAmount = 0, collectionRate = ''0%''\<rparr>,
      \<lparr>rep_hall = ''Hall B'', rep_totalStudents = 1, feesCollected = 1000, feesPending = 2000,
       rep_totalFeeAmount = 3000, collectionRate = ''33.3%''\<rparr>] \<and>
   sorted (map rep_hall (getFeeCollectionReport (\<lambda>a b. True) (db_of [student_F])))"
proof -
  have s: "sort_key hall_name [hall_B, hall_A] = [hall_A, hall_B]"
    by (simp add: hall_A_def hall_B_def)
  have 1: "getFeeCollectionReport (\<lambda>a b. True) (db_of [student_F]) =
     [\<lparr>rep_hall = ''Hall A'', rep_totalStudents = 0, feesCollected = 0, feesPending = 0,
       rep_totalFeeAmount = 0, collectionRate = ''0%''\<rparr>,
      \<lparr>rep_hall = ''Hall B'', rep_totalStudents = 1, feesCollected = 1000, feesPending = 2000,
       rep_totalFeeAmount = 3000, collectionRate = ''33.3%''\<rparr>]"
    by (simp add: getFeeCollectionReport_def db_of_def s)
      (simp add: report_group_def hall_A_def hall_B_def student_F_def Let_def rate_1000_3000)
  from fee_collection_report[of "\<lambda>a b. True" "db_of [student_F]"] 1 show ?thesis by blast
qed

text \<open>
  Claim C7. The upcoming-fees view returns exactly the students with a NULL \<open>left_date\<close>
  and a positive monthly fee, each once; the \<open>next_fee_date\<close> of a row is the student's
  \<open>join_date\<close> when there is no accrual stamp, and otherwise the text of the stamp plus
  one month; the rows are in ascending order of \<open>next_fee_date\<close>.
\<close>

theorem upcoming_fees:
  "mset (map fst (getUpcomingFees d)) =
     mset (filter (\<lambda>s. left_date s = None \<and> monthly_fee s > 0) (students d)) \<and>
   (\<forall>r \<in> set (getUpcomingFees d).
      snd r = (case last_fee_calculated_date (fst r) of
                 None \<Rightarrow> join_date (fst r)
               | Some l \<Rightarrow> map_option iso_date (sqlite_date_month 1 l))) \<and>
   sorted (map snd (getUpcomingFees d))"
proof (intro conjI)
  have "mset (getUpcomingFees d) =
      mset (map (\<lambda>s. (s, next_fee_date s))
        (filter (\<lambda>s. left_date s = None \<and> monthly_fee s > 0) (students d)))"
    by (simp add: getUpcomingFees_def)
  then have "image_mset fst (mset (getUpcomingFees d)) =
      image_mset fst (mset (map (\<lambda>s. (s, next_fee_date s))
        (filter (\<lambda>s. left_date s = None \<and> monthly_fee s > 0) (students d))))"
    by simp
  then show "mset (map fst (getUpcomingFees d)) =
     mset (filter (\<lambda>s. left_date s = None \<and> monthly_fee s > 0) (students d))"
    by (simp add: image_mset.compositionality comp_def)
  show "\<forall>r \<in> set (getUpcomingFees d).
      snd r = (case last_fee_calculated_date (fst r) of
                 None \<Rightarrow> join_date (fst r)
               | Some l \<Rightarrow> map_option iso_date (sqlite_date_month 1 l))"
    by (auto simp: getUpcomingFees_def next_fee_date_def split: option.splits)
  show "sorted (map snd (getUpcomingFees d))"
    unfolding getUpcomingFees_def by (rule sorted_sort_key)
qed

theorem upcoming_fees_witness:
  "getUpcomingFees (db_of [student_E, student_A, student_B]) =
     [(student_A, Some ''2024-01-01''), (student_E, Some ''2024-03-10'')] \<and>
   map snd (getUpcomingFees (fst (runMonthlyAccrual (2024, 3, 10) (db_of [student_E])))) =
     [Some ''2024-04-10''] \<and>
   sorted (map snd (getUpcomingFees (db_of [student_E, student_A, student_B])))"
proof -
  have 1: "getUpcomingFees (db_of [student_E, student_A, student_B]) =
     [(student_A, Some ''2024-01-01''), (student_E, Some ''2024-03-10'')]"
    by (simp add: getUpcomingFees_def db_of_def next_fee_date_def student_A_def student_B_def
        student_E_def)
  have e: "accrual_selects (2024, 3, 10) student_E"
    by (simp add: student_E_def accrual_selects_def)
  have 2: "map snd (getUpcomingFees (fst (runMonthlyAccrual (2024, 3, 10) (db_of [student_E])))) =
     [Some ''2024-04-10'']"
    using e
    by (simp add: getUpcomingFees_def runMonthlyAccrual_def db_of_def accrual_set_def
        next_fee_date_def plus_month_2024_03_10 iso_date_2024_04_10)
      (simp add: student_E_def)
  from upcoming_fees[of "db_of [student_E, student_A, student_B]"] 1 2
  show ?thesis by blast
qed


subsection \<open>Leaving and coming back\<close>

text \<open>
  Claim C8. Marking a student as left and reactivating a student change the column
  \<open>left_date\<close> of the rows with the given id and nothing else: every other column of
  those rows (balance, status and accrual stamp among them), every other row, and the
  rest of the database stay as they were. Marking as left stores the date of the request,
  or today's date when the request gives none; reactivating stores NULL. Both answer 404
  when no student has the id, and succeed otherwise.
\<close>

theorem lifecycle_frame:
  "(markLeft today k ld d = Inr d1 \<longrightarrow>
      d1 = d\<lparr>students := students d1\<rparr> \<and> length (students d1) = length (students d) \<and>
      (\<forall>i < length (students d).
         students d1 ! i =
           (if student_id (students d ! i) = k
            then (students d ! i)\<lparr>left_date :=
                   Some (case ld of None \<Rightarrow> iso_date today
                         | Some t \<Rightarrow> if t = [] then iso_date today else t)\<rparr>
            else students d ! i) \<and>
         fee_due (students d1 ! i) = fee_due (students d ! i) \<and>
         status (students d1 ! i) = status (students d ! i))) \<and>
   (reactivate k d = Inr d2 \<longrightarrow>
      d2 = d\<lparr>students := students d2\<rparr> \<and> length (students d2) = length (students d) \<and>
      (\<forall>i < length (students d).
         students d2 ! i =
           (if student_id (students d ! i) = k then (students d ! i)\<lparr>left_date := None\<rparr>
            else students d ! i) \<and>
         last_fee_calculated_date (students d2 ! i) =
           last_fee_calculated_date (students d ! i))) \<and>
   ((\<forall>s \<in> set (students d). student_id s \<noteq> k) \<longrightarrow>
      markLeft today k ld d = Inl (HttpError 404 ''Student not found'') \<and>
      reactivate k d = Inl (HttpError 404 ''Student not found'')) \<and>
   ((\<exists>s \<in> set (students d). student_id s = k) \<longrightarrow>
      (\<exists>x. markLeft today k ld d = Inr x) \<and> (\<exists>x. reactivate k d = Inr x))"
proof (intro conjI impI)
  assume a: "markLeft today k ld d = Inr d1"
  then have s: "students d1 =
      map (\<lambda>s. if student_id s = k
                then s\<lparr>left_date := Some (case ld of None \<Rightarrow> iso_date today
                         | Some t \<Rightarrow> if t = [] then iso_date today else t)\<rparr>
                else s) (students d)"
    by (auto simp: markLeft_def Let_def truthy_def text_of_def split: if_splits option.splits)
  from a show "d1 = d\<lparr>students := students d1\<rparr>"
    by (auto simp: markLeft_def Let_def split: if_splits)
  show "length (students d1) = length (students d)" by (simp add: s)
  show "\<forall>i < length (students d).
         students d1 ! i =
           (if student_id (students d ! i) = k
            then (students d ! i)\<lparr>left_date :=
                   Some (case ld of None \<Rightarrow> iso_date today
                         | Some t \<Rightarrow> if t = [] then iso_date today else t)\<rparr>
            else students d ! i) \<and>
         fee_due (students d1 ! i) = fee_due (students d ! i) \<and>
         status (students d1 ! i) = status (students d ! i)"
    by (simp add: s)
next
  assume a: "reactivate k d = Inr d2"
  then have s: "students d2 =
      map (\<lambda>s. if student_id s = k then s\<lparr>left_date := None\<rparr> else s) (students d)"
    by (auto simp: reactivate_def split: if_splits)
  from a show "d2 = d\<lparr>students := students d2\<rparr>"
    by (auto simp: reactivate_def split: if_splits)
  show "length (students d2) = length (students d)" by (simp add: s)
  show "\<forall>i < length (students d).
         students d2 ! i =
           (if student_id (students d ! i) = k then (students d ! i)\<lparr>left_date := None\<rparr>
            else students d ! i) \<and>
         last_fee_calculated_date (students d2 ! i) =
           last_fee_calculated_date (students d ! i)"
    by (simp add: s)
next
  assume a: "\<forall>s \<in> set (students d). student_id s \<noteq> k"
  then have "filter (\<lambda>s. student_id s = k) (students d) = []"
    by (simp add: filter_empty_conv)
  then show "markLeft today k ld d = Inl (HttpError 404 ''Student not found'')"
    and "reactivate k d = Inl (HttpError 404 ''Student not found'')"
    by (simp_all add: markLeft_def reactivate_def Let_def)
next
  assume a: "\<exists>s \<in> set (students d). student_id s = k"
  then have "filter (\<lambda>s. student_id s = k) (students d) \<noteq> []"
    by (simp add: filter_empty_conv)
  then show "\<exists>x. markLeft today k ld d = Inr x" and "\<exists>x. reactivate k d = Inr x"
    by (simp_all add: markLeft_def reactivate_def Let_def)
qed

theorem lifecycle_frame_witness:
  "markLeft (2024, 1, 1) 1 None example_db =
     Inr (example_db\<lparr>students := [student_A\<lparr>left_date := Some ''2024-01-01''\<rparr>, student_B]\<rparr>) \<and>
   markLeft (2024, 1, 1) 1 (Some ''2023-12-24'') example_db =
     Inr (example_db\<lparr>students := [student_A\<lparr>left_date := Some ''2023-12-24''\<rparr>, student_B]\<rparr>) \<and>
   reactivate 2 example_db =
     Inr (example_db\<lparr>students := [student_A, student_B\<lparr>left_date := None\<rparr>]\<rparr>) \<and>
   markLeft (2024, 1, 1) 7 None example_db = Inl (HttpError 404 ''Student not found'') \<and>
   reactivate 7 example_db = Inl (HttpError 404 ''Student not found'')"
proof -
  have ids: "student_id student_A = 1" "student_id student_B = 2"
    by (simp_all add: student_A_def student_B_def)
  have l: "students example_db = [student_A, student_B]" by (simp add: example_db_def)
  have has: "\<exists>s \<in> set (students example_db). student_id s = 1"
    "\<exists>s \<in> set (students example_db). student_id s = 2"
    by (simp_all add: l ids)
  have no7: "\<forall>s \<in> set (students example_db). student_id s \<noteq> 7" by (simp add: l ids)
  from lifecycle_frame[of "(2024, 1, 1)" 1 None example_db] has(1)
  obtain x where x: "markLeft (2024, 1, 1) 1 None example_db = Inr x" by blast
  from lifecycle_frame[of "(2024, 1, 1)" 1 None example_db x] x
  have "x = example_db\<lparr>students := students x\<rparr>" "length (students x) = 2"
    "students x ! 0 = student_A\<lparr>left_date := Some ''2024-01-01''\<rparr>"
    "students x ! Suc 0 = student_B"
    by (simp_all add: l ids iso_date_2024_01_01)
  then have "x = example_db\<lparr>students := [student_A\<lparr>left_date := Some ''2024-01-01''\<rparr>, student_B]\<rparr>"
    using two_rows[of "students x"] by simp
  with x have 1: "markLeft (2024, 1, 1) 1 None example_db =
     Inr (example_db\<lparr>students := [student_A\<lparr>left_date := Some ''2024-01-01''\<rparr>, student_B]\<rparr>)"
    by simp
  have 2: "markLeft (2024, 1, 1) 1 (Some ''2023-12-24'') example_db =
     Inr (example_db\<lparr>students := [student_A\<lparr>left_date := Some ''2023-12-24''\<rparr>, student_B]\<rparr>)"
    by (simp add: markLeft_def l ids truthy_def text_of_def)
  have 3: "reactivate 2 example_db =
     Inr (example_db\<lparr>students := [student_A, student_B\<lparr>left_date := None\<rparr>]\<rparr>)"
    by (simp add: reactivate_def l ids)
  from lifecycle_frame[of "(2024, 1, 1)" 7 None example_db] no7
  have 4: "markLeft (2024, 1, 1) 7 None example_db = Inl (HttpError 404 ''Student not found'') \<and>
    reactivate 7 example_db = Inl (HttpError 404 ''Student not found'')"
    by blast
  from 1 2 3 4 show ?thesis by blast
qed

subsection \<open>Deleting a study hall\<close>

text \<open>
  Claim C9. With hall ids unique: deleting a hall whose name is the \<open>hall\<close> of some
  student is refused with the message that students are assigned to it; deleting an id
  that no hall has answers 404; deleting a hall that no student names removes that hall
  and only it. For a hall named by exactly one student, the deletion is refused, and
  once that student is deleted the same deletion succeeds.
\<close>

theorem deleteStudyHall_outcomes:
  "(distinct (map hall_id (study_halls d)) \<and> h \<in> set (study_halls d) \<and>
    (\<exists>s \<in> set (students d). hall s = hall_name h) \<longrightarrow>
      deleteStudyHall (hall_id h) d =
        Inl (HttpError 400 ''Cannot delete study hall with students assigned to it'')) \<and>
   ((\<forall>x \<in> set (study_halls d). hall_id x \<noteq> k) \<longrightarrow>
      deleteStudyHall k d = Inl (HttpError 404 ''Study hall not found'')) \<and>
   (distinct (map hall_id (study_halls d)) \<and> h \<in> set (study_halls d) \<and>
    (\<forall>s \<in> set (students d). hall s \<noteq> hall_name h) \<longrightarrow>
      deleteStudyHall (hall_id h) d =
        Inr (d\<lparr>study_halls := filter (\<lambda>x. x \<noteq> h) (study_halls d)\<rparr>)) \<and>
   (distinct (map hall_id (study_halls d)) \<and> h \<in> set (study_halls d) \<and>
    filter (\<lambda>s. hall s = hall_name h) (students d) = [s] \<and>
    (\<forall>x \<in> set (students d). student_id x = student_id s \<longrightarrow> x = s) \<longrightarrow>
      deleteStudyHall (hall_id h) d =
        Inl (HttpError 400 ''Cannot delete study hall with students assigned to it'') \<and>
      deleteStudent (student_id s) d =
        Inr (d\<lparr>students := filter (\<lambda>x. x \<noteq> s) (students d)\<rparr>) \<and>
      deleteStudyHall (hall_id h) (d\<lparr>students := filter (\<lambda>x. x \<noteq> s) (students d)\<rparr>) =
        Inr (d\<lparr>students := filter (\<lambda>x. x \<noteq> s) (students d),
               study_halls := filter (\<lambda>x. x \<noteq> h) (study_halls d)\<rparr>))"
proof (intro conjI impI)
  assume a: "distinct (map hall_id (study_halls d)) \<and> h \<in> set (study_halls d) \<and>
    (\<exists>s \<in> set (students d). hall s = hall_name h)"
  then have n: "hall_name_of_id (hall_id h) d = Some (hall_name h)"
    by (simp add: hall_name_of_id_member)
  from a have "filter (\<lambda>s. hall s = hall_name h) (students d) \<noteq> []"
    by (simp add: filter_empty_conv)
  with n show "deleteStudyHall (hall_id h) d =
        Inl (HttpError 400 ''Cannot delete study hall with students assigned to it'')"
    by (simp add: deleteStudyHall_def students_in_hall_count_def)
next
  assume a: "\<forall>x \<in> set (study_halls d). hall_id x \<noteq> k"
  then have "filter (\<lambda>h. hall_id h = k) (study_halls d) = []"
    by (simp add: filter_empty_conv)
  with hall_name_of_id_absent[OF a]
  show "deleteStudyHall k d = Inl (HttpError 404 ''Study hall not found'')"
    by (simp add: deleteStudyHall_def students_in_hall_count_def)
next
  assume a: "distinct (map hall_id (study_halls d)) \<and> h \<in> set (study_halls d) \<and>
    (\<forall>s \<in> set (students d). hall s \<noteq> hall_name h)"
  then have "filter (\<lambda>s. hall s = hall_name h) (students d) = []"
    by (simp add: filter_empty_conv)
  with a show "deleteStudyHall (hall_id h) d =
        Inr (d\<lparr>study_halls := filter (\<lambda>x. x \<noteq> h) (study_halls d)\<rparr>)"
    by (simp add: deleteStudyHall_free)
next
  assume a: "distinct (map hall_id (study_halls d)) \<and> h \<in> set (study_halls d) \<and>
    filter (\<lambda>s. hall s = hall_name h) (students d) = [s] \<and>
    (\<forall>x \<in> set (students d). student_id x = student_id s \<longrightarrow> x = s)"
  let ?d = "d\<lparr>students := filter (\<lambda>x. x \<noteq> s) (students d)\<rparr>"
  from a have f: "filter (\<lambda>s. hall s = hall_name h) (students d) = [s]" by simp
  then have "s \<in> set (filter (\<lambda>s. hall s = hall_name h) (students d))" by simp
  then have mem: "s \<in> set (students d)" by simp
  from a f show "deleteStudyHall (hall_id h) d =
        Inl (HttpError 400 ''Cannot delete study hall with students assigned to it'')"
    by (simp add: deleteStudyHall_occupied)
  from a mem show "deleteStudent (student_id s) d = Inr ?d"
    by (simp add: deleteStudent_unique)
  have "filter (\<lambda>s. hall s = hall_name h) (students ?d) =
      filter (\<lambda>x. x \<noteq> s) (filter (\<lambda>s. hall s = hall_name h) (students d))"
    by (simp add: conj_commute)
  then have "filter (\<lambda>s. hall s = hall_name h) (students ?d) = []" by (simp add: f)
  moreover from a have "distinct (map hall_id (study_halls ?d))" "h \<in> set (study_halls ?d)"
    by simp_all
  ultimately have "deleteStudyHall (hall_id h) ?d =
      Inr (?d\<lparr>study_halls := filter (\<lambda>x. x \<noteq> h) (study_halls ?d)\<rparr>)"
    by (rule deleteStudyHall_free[rotated 2])
  then show "deleteStudyHall (hall_id h) ?d =
        Inr (d\<lparr>students := filter (\<lambda>x. x \<noteq> s) (students d),
               study_halls := filter (\<lambda>x. x \<noteq> h) (study_halls d)\<rparr>)"
    by simp
qed

theorem deleteStudyHall_outcomes_witness:
  "deleteStudyHall 1 example_db =
     Inl (HttpError 400 ''Cannot delete study hall with students assigned to it'') \<and>
   deleteStudent 1 example_db = Inr (example_db\<lparr>students := [student_B]\<rparr>) \<and>
   deleteStudyHall 1 (example_db\<lparr>students := [student_B]\<rparr>) =
     Inr (example_db\<lparr>students := [student_B], study_halls := [hall_B]\<rparr>) \<and>
   deleteStudyHall 9 example_db = Inl (HttpError 404 ''Study hall not found'') \<and>
   deleteStudyHall 2 (db_of [student_A]) =
     Inr ((db_of [student_A])\<lparr>study_halls := [hall_A]\<rparr>)"
proof -
  have ne: "student_A \<noteq> student_B" "hall_A \<noteq> hall_B"
    by (simp_all add: student_A_def student_B_def hall_A_def hall_B_def)
  have h: "distinct (map hall_id (study_halls example_db))" "hall_A \<in> set (study_halls example_db)"
    "hall_id hall_A = 1"
    by (simp_all add: example_defs)
  have s: "filter (\<lambda>s. hall s = hall_name hall_A) (students example_db) = [student_A]"
    "\<forall>x \<in> set (students example_db). student_id x = student_id student_A \<longrightarrow> x = student_A"
    "student_id student_A = 1"
    by (simp_all add: example_defs)
  have fs: "filter (\<lambda>x. x \<noteq> student_A) (students example_db) = [student_B]"
    "filter (\<lambda>x. x \<noteq> hall_A) (study_halls example_db) = [hall_B]"
    using ne by (auto simp: example_db_def)
  have n9: "\<forall>x \<in> set (study_halls example_db). hall_id x \<noteq> 9"
    by (simp add: example_defs)
  have hB: "distinct (map hall_id (study_halls (db_of [student_A])))"
    "hall_B \<in> set (study_halls (db_of [student_A]))" "hall_id hall_B = 2"
    "\<forall>s \<in> set (students (db_of [student_A])). hall s \<noteq> hall_name hall_B"
    "filter (\<lambda>x. x \<noteq> hall_B) (study_halls (db_of [student_A])) = [hall_A]"
    using ne by (auto simp: db_of_def student_A_def hall_A_def hall_B_def)
  from deleteStudyHall_outcomes[of example_db hall_A 9 student_A] h s fs n9
  have 1: "deleteStudyHall 1 example_db =
     Inl (HttpError 400 ''Cannot delete study hall with students assigned to it'') \<and>
   deleteStudent 1 example_db = Inr (example_db\<lparr>students := [student_B]\<rparr>) \<and>
   deleteStudyHall 1 (example_db\<lparr>students := [student_B]\<rparr>) =
     Inr (example_db\<lparr>students := [student_B], study_halls := [hall_B]\<rparr>) \<and>
   deleteStudyHall 9 example_db = Inl (HttpError 404 ''Study hall not found'')"
    by simp
  from deleteStudyHall_outcomes[of "db_of [student_A]" hall_B] hB
  have 2: "deleteStudyHall 2 (db_of [student_A]) =
     Inr ((db_of [student_A])\<lparr>study_halls := [hall_A]\<rparr>)"
    by simp
  from 1 2 show ?thesis by blast
qed

subsection \<open>The empty text as a leave date\<close>

text \<open>
  Claim C10. A student whose \<open>left_date\<close> is the empty text counts as active on the
  dashboard: the student adds one to \<open>activeStudents\<close> and the monthly fee to
  \<open>monthlyFeeTotal\<close>, and nothing to \<open>leftStudents\<close>. The accrual and the upcoming-fees
  view treat the same student as departed: the accrual leaves the row as it is and does
  not count it, and the view does not list it.
\<close>

theorem empty_left_date_inconsistent:
  assumes "left_date s = Some []" and "students d = xs @ s # ys"
  shows "activeStudents (getDashboardSummary d) =
           activeStudents (getDashboardSummary (d\<lparr>students := xs @ ys\<rparr>)) + 1 \<and>
         monthlyFeeTotal (getDashboardSummary d) =
           monthlyFeeTotal (getDashboardSummary (d\<lparr>students := xs @ ys\<rparr>)) + monthly_fee s \<and>
         leftStudents (getDashboardSummary d) =
           leftStudents (getDashboardSummary (d\<lparr>students := xs @ ys\<rparr>)) \<and>
         students (fst (runMonthlyAccrual D d)) ! length xs = s \<and>
         snd (runMonthlyAccrual D d) = snd (runMonthlyAccrual D (d\<lparr>students := xs @ ys\<rparr>)) \<and>
         getUpcomingFees d = getUpcomingFees (d\<lparr>students := xs @ ys\<rparr>) \<and>
         s \<notin> fst ` set (getUpcomingFees d)"
proof -
  have ns: "\<not> accrual_selects D s" using assms(1) by (simp add: accrual_selects_def)
  have acc: "students (fst (runMonthlyAccrual D d)) ! length xs = s"
    using ns by (simp add: students_runMonthlyAccrual assms(2) nth_append)
  have cnt: "snd (runMonthlyAccrual D d) = snd (runMonthlyAccrual D (d\<lparr>students := xs @ ys\<rparr>))"
    using ns by (simp add: snd_runMonthlyAccrual assms(2))
  have up: "getUpcomingFees d = getUpcomingFees (d\<lparr>students := xs @ ys\<rparr>)"
    using assms(1) by (simp add: getUpcomingFees_def assms(2))
  have notin: "s \<notin> fst ` set (getUpcomingFees d)"
    using assms(1) by (auto simp: getUpcomingFees_def)
  have dash: "activeStudents (getDashboardSummary d) =
           activeStudents (getDashboardSummary (d\<lparr>students := xs @ ys\<rparr>)) + 1"
    "monthlyFeeTotal (getDashboardSummary d) =
           monthlyFeeTotal (getDashboardSummary (d\<lparr>students := xs @ ys\<rparr>)) + monthly_fee s"
    "leftStudents (getDashboardSummary d) =
           leftStudents (getDashboardSummary (d\<lparr>students := xs @ ys\<rparr>))"
    using assms(1) by (simp_all add: getDashboardSummary_def assms(2))
  from dash acc cnt up notin show ?thesis by blast
qed

theorem empty_left_date_inconsistent_witness:
  "left_date student_G = Some [] \<and>
   activeStudents (getDashboardSummary (db_of [student_B, student_G])) = 1 \<and>
   monthlyFeeTotal (getDashboardSummary (db_of [student_B, student_G])) = 250 \<and>
   runMonthlyAccrual (2024, 2, 2) (db_of [student_B, student_G]) =
     (db_of [student_B, student_G], 0) \<and>
   getUpcomingFees (db_of [student_B, student_G]) = []"
proof -
  have g: "left_date student_G = Some []" by (simp add: student_G_def)
  have l: "students (db_of [student_B, student_G]) = [student_B] @ student_G # []"
    by (simp add: db_of_def)
  have m: "monthly_fee student_G = 250" by (simp add: student_G_def)
  have b: "getDashboardSummary ((db_of [student_B, student_G])\<lparr>students := [student_B] @ []\<rparr>) =
      getDashboardSummary (db_of [student_B])"
    by (simp add: db_of_def)
  have b0: "activeStudents (getDashboardSummary (db_of [student_B])) = 0"
    "monthlyFeeTotal (getDashboardSummary (db_of [student_B])) = 0"
    by (simp_all add: getDashboardSummary_def db_of_def student_B_def)
  have u0: "getUpcomingFees ((db_of [student_B, student_G])\<lparr>students := [student_B] @ []\<rparr>) = []"
    by (simp add: getUpcomingFees_def db_of_def student_B_def)
  have ng: "\<not> accrual_selects (2024, 2, 2) student_G"
    by (simp add: student_G_def accrual_selects_def)
  have r: "runMonthlyAccrual (2024, 2, 2) (db_of [student_B, student_G]) =
     (db_of [student_B, student_G], 0)"
    using ng selects_not_B[of "(2024, 2, 2)"] by (simp add: runMonthlyAccrual_def db_of_def)
  from empty_left_date_inconsistent[OF g l, of "(2024, 2, 2)"] g m b0 u0 r
  show ?thesis by (simp only: b) simp
qed

end
